theory Spec2Isabelle
  imports Complex_Main
begin

section \<open>The rate limiter of \<open>src/utils/moonbuy.ts\<close>\<close>

text \<open>
  \<open>rateLimitState\<close> is a module-level object with three numeric fields. The counter and
  the timestamps (\<open>Date.now()\<close>, milliseconds) are integers.
\<close>

definition MAX_BUNDLES_PER_SECOND :: int where
  "MAX_BUNDLES_PER_SECOND = 2"

record rateLimitState =
  count :: int
  lastReset :: int
  maxBundlesPerSecond :: int

text \<open>
  The state as the module creates it; \<open>t0\<close> is the value of \<open>Date.now()\<close> when the module
  is loaded.
\<close>

definition initialRateLimitState :: "int \<Rightarrow> rateLimitState" where
  "initialRateLimitState t0 =
     \<lparr>count = 0, lastReset = t0, maxBundlesPerSecond = MAX_BUNDLES_PER_SECOND\<rparr>"

text \<open>
  \<open>checkRateLimit\<close> reads the clock once on entry (\<open>now\<close>) and, when it has slept, once
  more (\<open>wake\<close>); both readings come from the environment. The function returns the new
  state and the duration handed to \<open>setTimeout\<close>, \<open>None\<close> when the call does not sleep.
  The two \<open>if\<close> statements of the source are sequential, and so are they here.
\<close>

definition checkRateLimit :: "rateLimitState \<Rightarrow> int \<Rightarrow> int \<Rightarrow> rateLimitState \<times> int option" where
  "checkRateLimit s now wake =
     (let s1 = (if now - lastReset s \<ge> 1000
                then s\<lparr>count := 0, lastReset := now\<rparr>
                else s);
          r = (if count s1 \<ge> maxBundlesPerSecond s1
               then (s1\<lparr>count := 0, lastReset := wake\<rparr>, Some (1000 - (now - lastReset s1)))
               else (s1, None))
      in ((fst r)\<lparr>count := count (fst r) + 1\<rparr>, snd r))"

text \<open>
  The window algorithm in the words of the specification, which resets the window only
  when \<^emph>\<open>more than\<close> one second has elapsed. It is here for comparison with the code.
\<close>

definition checkRateLimit_as_specified ::
    "rateLimitState \<Rightarrow> int \<Rightarrow> int \<Rightarrow> rateLimitState \<times> int option" where
  "checkRateLimit_as_specified s now wake =
     (if now - lastReset s > 1000 then (s\<lparr>count := 1, lastReset := now\<rparr>, None)
      else if count s \<ge> MAX_BUNDLES_PER_SECOND
        then (s\<lparr>count := 1, lastReset := wake\<rparr>, Some (1000 - (now - lastReset s)))
      else (s\<lparr>count := count s + 1\<rparr>, None))"







section \<open>JavaScript numbers and values\<close>

text \<open>
  A JavaScript number is \<open>NaN\<close>, an infinity or a finite value. The code below only
  compares numbers, so a finite value is modelled by the real number it denotes.
  Every comparison with \<open>NaN\<close> is false.
\<close>

datatype jsnum = NaN | NegInf | Fin real | PosInf

fun js_lt :: "jsnum \<Rightarrow> jsnum \<Rightarrow> bool" where
  "js_lt NaN y = False"
| "js_lt x NaN = False"
| "js_lt PosInf y = False"
| "js_lt x NegInf = False"
| "js_lt NegInf y = True"
| "js_lt x PosInf = True"
| "js_lt (Fin x) (Fin y) = (x < y)"

fun js_le :: "jsnum \<Rightarrow> jsnum \<Rightarrow> bool" where
  "js_le NaN y = False"
| "js_le x NaN = False"
| "js_le NegInf y = True"
| "js_le x PosInf = True"
| "js_le PosInf y = False"
| "js_le x NegInf = False"
| "js_le (Fin x) (Fin y) = (x \<le> y)"

definition isNaN :: "jsnum \<Rightarrow> bool" where
  "isNaN x \<longleftrightarrow> x = NaN"

text \<open>\<open>x || 0\<close> on a number: \<open>NaN\<close> and zero are falsy and give 0.\<close>

definition truthyNumber :: "jsnum \<Rightarrow> bool" where
  "truthyNumber x \<longleftrightarrow> x \<noteq> NaN \<and> x \<noteq> Fin 0"

text \<open>
  The values a property received from the backend can hold. An array holds the encoded
  transactions, which are strings.
\<close>

datatype jsval =
    JUndefined
  | JNull
  | JBoolean bool
  | JNumber jsnum
  | JString string
  | JArray "string list"
  | JObject

fun truthy :: "jsval \<Rightarrow> bool" where
  "truthy JUndefined = False"
| "truthy JNull = False"
| "truthy (JBoolean b) = b"
| "truthy (JNumber x) = truthyNumber x"
| "truthy (JString s) = (s \<noteq> [])"
| "truthy (JArray xs) = True"
| "truthy JObject = True"

fun isArray :: "jsval \<Rightarrow> bool" where
  "isArray (JArray xs) = True"
| "isArray v = False"

fun arrayElements :: "jsval \<Rightarrow> string list" where
  "arrayElements (JArray xs) = xs"
| "arrayElements v = []"

text \<open>A thrown \<open>Error\<close> object, with its message.\<close>

datatype error = Error (message: string)

text \<open>
  \<open>Array.prototype.map\<close> with a callback that may throw: the first exception ends the
  traversal.
\<close>

fun mapE :: "('a \<Rightarrow> error + 'b) \<Rightarrow> 'a list \<Rightarrow> error + 'b list" where
  "mapE f [] = Inr []"
| "mapE f (x # xs) =
     (case f x of
        Inl e \<Rightarrow> Inl e
      | Inr y \<Rightarrow> (case mapE f xs of Inl e \<Rightarrow> Inl e | Inr ys \<Rightarrow> Inr (y # ys)))"


section \<open>Signing: \<open>completeBundleSigning\<close> and \<open>signTransactions\<close>\<close>

text \<open>
  A bundle is an object whose \<open>transactions\<close> property can hold any value at run time
  (\<open>JUndefined\<close> when it is missing). A keypair is an object of the external SDK with a
  public key (compared through its base58 text) and a secret key. Both paths build
  every keypair they hold with \<open>Keypair.fromSecretKey\<close>, which checks the public key
  against the secret key: held keypairs with one public key are the same keypair
  (\<open>inj_on publicKey\<close> on the held keypairs).
\<close>

record moonBuyBundle =
  transactions :: jsval

record keypair =
  publicKey :: string
  secretKey :: string

text \<open>
  The operations of the external libraries (\<open>@solana/web3.js\<close>, \<open>bs58\<close>) are parameters:
  \<open>deserialize\<close> is \<open>VersionedTransaction.deserialize(bs58.decode(_))\<close>,
  \<open>staticAccountKeys\<close> gives the base58 text of \<open>transaction.message.staticAccountKeys\<close>,
  \<open>sign\<close> is \<open>transaction.sign(signers)\<close>, \<open>serialize\<close> is
  \<open>bs58.encode(transaction.serialize())\<close> and \<open>fromSecretKey\<close> is
  \<open>Keypair.fromSecretKey(bs58.decode(_))\<close>. Each of them may throw.
\<close>

record 'tx sdk =
  deserialize :: "string \<Rightarrow> error + 'tx"
  staticAccountKeys :: "'tx \<Rightarrow> string list"
  sign :: "'tx \<Rightarrow> keypair list \<Rightarrow> error + 'tx"
  serialize :: "'tx \<Rightarrow> error + string"
  fromSecretKey :: "string \<Rightarrow> error + keypair"

text \<open>
  The loop over \<open>staticAccountKeys\<close>: \<open>find\<close> returns the first held keypair with the
  public key, which is pushed unless \<open>signers\<close> already includes it. \<open>includes\<close> compares
  object identity; every element of \<open>signers\<close> is the first keypair of its public key, so
  identity and equality of values agree on them.
\<close>

fun collectSigners :: "keypair list \<Rightarrow> string list \<Rightarrow> keypair list \<Rightarrow> keypair list" where
  "collectSigners walletKeypairs [] signers = signers"
| "collectSigners walletKeypairs (pubkeyStr # rest) signers =
     (case find (\<lambda>kp. publicKey kp = pubkeyStr) walletKeypairs of
        None \<Rightarrow> collectSigners walletKeypairs rest signers
      | Some matchingKeypair \<Rightarrow>
          if matchingKeypair \<notin> set signers
          then collectSigners walletKeypairs rest (signers @ [matchingKeypair])
          else collectSigners walletKeypairs rest signers)"

text \<open>The callback of \<open>bundle.transactions.map\<close>, the same in both functions.\<close>

definition signTransaction :: "'tx sdk \<Rightarrow> keypair list \<Rightarrow> string \<Rightarrow> error + string" where
  "signTransaction lib walletKeypairs txBase58 =
     (case deserialize lib txBase58 of
        Inl e \<Rightarrow> Inl e
      | Inr transaction \<Rightarrow>
          (case sign lib transaction
                  (collectSigners walletKeypairs (staticAccountKeys lib transaction) []) of
             Inl e \<Rightarrow> Inl e
           | Inr signed \<Rightarrow> serialize lib signed))"

definition completeBundleSigning :: "'tx sdk \<Rightarrow> moonBuyBundle \<Rightarrow> keypair list \<Rightarrow> error + moonBuyBundle" where
  "completeBundleSigning lib b walletKeypairs =
     (if \<not> truthy (transactions b) \<or> \<not> isArray (transactions b)
      then Inr \<lparr>transactions = JArray []\<rparr>
      else (case mapE (signTransaction lib walletKeypairs) (arrayElements (transactions b)) of
              Inl e \<Rightarrow> Inl e
            | Inr signedTransactions \<Rightarrow> Inr \<lparr>transactions = JArray signedTransactions\<rparr>))"

text \<open>
  \<open>signTransactions\<close> of the custom-buy modal checks the bundle first and only then builds
  the keypairs from the private keys.
\<close>

definition signTransactions :: "'tx sdk \<Rightarrow> moonBuyBundle \<Rightarrow> string list \<Rightarrow> error + moonBuyBundle" where
  "signTransactions lib b privateKeys =
     (if \<not> truthy (transactions b) \<or> \<not> isArray (transactions b)
      then Inr \<lparr>transactions = JArray []\<rparr>
      else (case mapE (fromSecretKey lib) privateKeys of
              Inl e \<Rightarrow> Inl e
            | Inr walletKeypairs \<Rightarrow>
                (case mapE (signTransaction lib walletKeypairs) (arrayElements (transactions b)) of
                   Inl e \<Rightarrow> Inl e
                 | Inr signedTransactions \<Rightarrow> Inr \<lparr>transactions = JArray signedTransactions\<rparr>)))"

text \<open>
  A small instance of the library, for evaluating the functions on concrete bundles: a
  transaction is its message (each character one account key) with the secret keys that
  signed it; the encoded form joins the two with a bar. A blob starting with \<open>!\<close> does not
  decode.
\<close>

definition toySdk :: "(string \<times> string list) sdk" where
  "toySdk =
     \<lparr>deserialize = (\<lambda>s. if take 1 s = ''!'' then Inl (Error ''Non-base58 character'')
                         else Inr (s, [])),
      staticAccountKeys = (\<lambda>t. map (\<lambda>c. [c]) (fst t)),
      sign = (\<lambda>t kps. Inr (fst t, snd t @ map secretKey kps)),
      serialize = (\<lambda>t. Inr (fst t @ ''|'' @ concat (snd t))),
      fromSecretKey = (\<lambda>k. if k = [] then Inl (Error ''bad secret key size'')
                           else Inr \<lparr>publicKey = take 1 k, secretKey = k\<rparr>)\<rparr>"


text \<open>Keypairs for the evaluations, with two different public keys.\<close>

definition heldA :: keypair where
  "heldA = \<lparr>publicKey = ''A'', secretKey = ''Akey''\<rparr>"

definition heldB :: keypair where
  "heldB = \<lparr>publicKey = ''B'', secretKey = ''Bkey''\<rparr>"



section \<open>Submitting bundles: \<open>executeMoonBuy\<close> and \<open>sendSignedTransactions\<close>\<close>

record walletMoonBuy =
  address :: string
  privateKey :: string

record tokenConfig =
  tokenAddress :: string
  solAmount :: jsnum

text \<open>
  What a run does to the outside world is recorded as a trace: the calls of
  \<open>checkRateLimit\<close>, the start of each send (the \<open>fetch\<close> of bundle \<open>i\<close> with its payload),
  its settlement, and the fixed delays between bundles.
\<close>

datatype event =
    RateLimitCheck nat
  | SendBundle nat jsval
  | SendResolved nat
  | SendRejected nat
  | Delay int

text \<open>
  The network and the clock are the environment. \<open>getPartiallyPreparedTransactions\<close> is
  the outcome of the request for unsigned bundles, \<open>sendBundle\<close> the outcome of posting
  the \<open>i\<close>-th bundle, and \<open>dateNow\<close> the two clock readings of the \<open>i\<close>-th rate-limit check.
\<close>

record network =
  getPartiallyPreparedTransactions ::
    "string list \<Rightarrow> tokenConfig \<Rightarrow> jsnum list option \<Rightarrow> error + moonBuyBundle list"
  sendBundle :: "nat \<Rightarrow> jsval \<Rightarrow> error + string"
  dateNow :: "nat \<Rightarrow> int \<times> int"

record sendState =
  rateLimit :: rateLimitState
  results :: "string list"
  trace :: "event list"

text \<open>
  The loop of step 4, \<open>for (let i = 0; i < signedBundles.length; i++)\<close>, with \<open>n\<close> the
  length of \<open>signedBundles\<close>. A rejected send throws out of the loop; the state reached
  so far is returned with the exception.
\<close>

fun sendLoop :: "network \<Rightarrow> nat \<Rightarrow> nat \<Rightarrow> moonBuyBundle list \<Rightarrow> sendState
    \<Rightarrow> sendState \<times> error option" where
  "sendLoop net n i [] st = (st, None)"
| "sendLoop net n i (b # bs) st =
     (let checked = checkRateLimit (rateLimit st) (fst (dateNow net i)) (snd (dateNow net i));
          st1 = st\<lparr>rateLimit := fst checked,
                    trace := trace st @ [RateLimitCheck i, SendBundle i (transactions b)]\<rparr>
      in case sendBundle net i (transactions b) of
           Inl e \<Rightarrow> (st1\<lparr>trace := trace st1 @ [SendRejected i]\<rparr>, Some e)
         | Inr r \<Rightarrow>
             (let st2 = st1\<lparr>results := results st1 @ [r],
                            trace := trace st1 @ [SendResolved i]\<rparr>;
                  st3 = (if int i < int n - 1
                         then st2\<lparr>trace := trace st2 @ [Delay 500]\<rparr>
                         else st2)
              in sendLoop net n (i + 1) bs st3))"

text \<open>
  The body of the \<open>try\<close> block of \<open>executeMoonBuy\<close>: fetch the bundles, build the keypairs,
  sign every bundle, send them one by one. An exception is the value \<open>Inl\<close>.
\<close>

definition executeMoonBuy_try :: "'tx sdk \<Rightarrow> network \<Rightarrow> rateLimitState \<Rightarrow> walletMoonBuy list
    \<Rightarrow> tokenConfig \<Rightarrow> jsnum list option \<Rightarrow> sendState \<times> (error + string list)" where
  "executeMoonBuy_try lib net rl wallets config customAmounts =
     (let st0 = \<lparr>rateLimit = rl, results = [], trace = []\<rparr>;
          walletAddresses = map address wallets
      in case getPartiallyPreparedTransactions net walletAddresses config customAmounts of
           Inl e \<Rightarrow> (st0, Inl e)
         | Inr partiallyPreparedBundles \<Rightarrow>
             (case mapE (fromSecretKey lib) (map privateKey wallets) of
                Inl e \<Rightarrow> (st0, Inl e)
              | Inr walletKeypairs \<Rightarrow>
                  (case mapE (\<lambda>b. completeBundleSigning lib b walletKeypairs)
                          partiallyPreparedBundles of
                     Inl e \<Rightarrow> (st0, Inl e)
                   | Inr signedBundles \<Rightarrow>
                       (case sendLoop net (length signedBundles) 0 signedBundles st0 of
                          (st, Some e) \<Rightarrow> (st, Inl e)
                        | (st, None) \<Rightarrow> (st, Inr (results st))))))"

record errorProperty =
  error :: "string option"

record moonBuyResult = errorProperty +
  success :: bool
  result :: "string list option"

text \<open>\<open>executeMoonBuy\<close>: the \<open>try\<close> block with its \<open>catch\<close>, which reads \<open>error.message\<close>.\<close>

definition executeMoonBuy :: "'tx sdk \<Rightarrow> network \<Rightarrow> rateLimitState \<Rightarrow> walletMoonBuy list
    \<Rightarrow> tokenConfig \<Rightarrow> jsnum list option \<Rightarrow> sendState \<times> moonBuyResult" where
  "executeMoonBuy lib net rl wallets config customAmounts =
     (case executeMoonBuy_try lib net rl wallets config customAmounts of
        (st, Inr rs) \<Rightarrow> (st, \<lparr>error = None, success = True, result = Some rs\<rparr>)
      | (st, Inl e) \<Rightarrow> (st, \<lparr>error = Some (message e), success = False, result = None\<rparr>))"

text \<open>
  \<open>sendSignedTransactions\<close> of the custom-buy modal maps an \<open>async\<close> callback over the
  bundles and awaits \<open>Promise.all\<close>. Each callback runs up to its \<open>await fetch(...)\<close> when
  \<open>map\<close> calls it, so every send is started before any response is handled; the
  responses then arrive in an order the environment chooses (\<open>arrival\<close>, indices into
  the bundles). \<open>post\<close> is the outcome of the callback for the \<open>i\<close>-th bundle.
  \<open>Promise.all\<close> rejects with the first rejection to arrive and otherwise resolves with
  all results in the order of the bundles.
\<close>

definition sendSignedTransactions :: "(nat \<Rightarrow> jsval \<Rightarrow> bool \<Rightarrow> error + string) \<Rightarrow> nat list
    \<Rightarrow> moonBuyBundle list \<Rightarrow> bool \<Rightarrow> event list \<times> (error + string list)" where
  "sendSignedTransactions post arrival signedBundles useRpcSetting =
     (let indexed = enumerate 0 signedBundles;
          started = map (\<lambda>(i, b). SendBundle i (transactions b)) indexed;
          outcomes = map (\<lambda>(i, b). post i (transactions b) useRpcSetting) indexed;
          arrived = map (\<lambda>i. (i, outcomes ! i)) (filter (\<lambda>i. i < length outcomes) arrival);
          settled = map (\<lambda>(i, r). case r of Inl e \<Rightarrow> SendRejected i | Inr v \<Rightarrow> SendResolved i)
                        arrived
      in (started @ settled,
          case mapE snd arrived of
            Inl e \<Rightarrow> Inl e
          | Inr vs \<Rightarrow> mapE (\<lambda>r. r) outcomes))"

text \<open>
  Sequential submission as a property of a trace, for bundles \<open>bs\<close> starting at index \<open>i\<close>
  of \<open>n\<close>: every send comes right after its rate-limit check and settles before anything
  else happens; a resolved send is followed by a delay of 500 ms unless it was the last
  bundle, and then by the next bundle; a rejected send ends the trace.
\<close>

fun sequentialTrace :: "nat \<Rightarrow> nat \<Rightarrow> moonBuyBundle list \<Rightarrow> event list \<Rightarrow> bool" where
  "sequentialTrace n i [] t = (t = [])"
| "sequentialTrace n i (b # bs) t =
     (t = [RateLimitCheck i, SendBundle i (transactions b), SendRejected i]
      \<or> (let pre = [RateLimitCheck i, SendBundle i (transactions b), SendResolved i]
                     @ (if int i < int n - 1 then [Delay 500] else [])
         in take (length pre) t = pre \<and> sequentialTrace n (i + 1) bs (drop (length pre) t)))"

text \<open>The events of the loop, as a function of the outcomes of the sends.\<close>

fun loopTrace :: "network \<Rightarrow> nat \<Rightarrow> nat \<Rightarrow> moonBuyBundle list \<Rightarrow> event list" where
  "loopTrace net n i [] = []"
| "loopTrace net n i (b # bs) =
     [RateLimitCheck i, SendBundle i (transactions b)]
     @ (case sendBundle net i (transactions b) of
          Inl e \<Rightarrow> [SendRejected i]
        | Inr r \<Rightarrow> [SendResolved i] @ (if int i < int n - 1 then [Delay 500] else [])
                     @ loopTrace net n (i + 1) bs)"

text \<open>The indices of the bundles whose send was started, in the order of the trace.\<close>

fun sentIndices :: "event list \<Rightarrow> nat list" where
  "sentIndices [] = []"
| "sentIndices (SendBundle i p # t) = i # sentIndices t"
| "sentIndices (e # t) = sentIndices t"

text \<open>The outcome of posting a bundle, given with its index.\<close>

definition postOf :: "network \<Rightarrow> nat \<times> moonBuyBundle \<Rightarrow> error + string" where
  "postOf net ib = sendBundle net (fst ib) (transactions (snd ib))"

text \<open>
  An environment for the evaluations: the backend returns two bundles, and the relay
  rejects a bundle whose transaction for \<open>B\<close> carries no signature.
\<close>

definition toyNetwork :: network where
  "toyNetwork =
     \<lparr>getPartiallyPreparedTransactions =
        (\<lambda>addrs config amounts.
           if addrs = [] then Inl (Error ''HTTP error! Status: 400'')
           else Inr [\<lparr>transactions = JArray [''AC'']\<rparr>, \<lparr>transactions = JArray [''B'']\<rparr>]),
      sendBundle = (\<lambda>i p. if p = JArray [''B|''] then Inl (Error ''Failed to fetch'')
                           else Inr ''ok''),
      dateNow = (\<lambda>i. (int i * 600, int i * 600))\<rparr>"


section \<open>Input validation: \<open>validateMoonBuyInputs\<close>\<close>

record validationResult = errorProperty +
  valid :: bool

text \<open>
  \<open>walletBalances.get(wallet.address) || 0\<close>: the balance is 0 when the address is absent
  from the map, and also when the stored number is falsy (\<open>NaN\<close> or zero).
\<close>

definition orZero :: "jsnum option \<Rightarrow> jsnum" where
  "orZero v = (case v of None \<Rightarrow> Fin 0 | Some x \<Rightarrow> if truthyNumber x then x else Fin 0)"

text \<open>The \<open>for (const wallet of wallets)\<close> loop, which returns at the first bad wallet.\<close>

fun validateWallets :: "walletMoonBuy list \<Rightarrow> tokenConfig \<Rightarrow> (string \<rightharpoonup> jsnum) \<Rightarrow> validationResult" where
  "validateWallets [] config walletBalances = \<lparr>error = None, valid = True\<rparr>"
| "validateWallets (wallet # rest) config walletBalances =
     (if address wallet = [] \<or> privateKey wallet = []
      then \<lparr>error = Some ''Invalid wallet data'', valid = False\<rparr>
      else (let balance = orZero (walletBalances (address wallet))
            in if js_lt balance (solAmount config)
               then \<lparr>error = Some (''Wallet '' @ take 6 (address wallet)
                                      @ ''... has insufficient balance''),
                     valid = False\<rparr>
               else validateWallets rest config walletBalances))"

definition validateMoonBuyInputs ::
    "walletMoonBuy list \<Rightarrow> tokenConfig \<Rightarrow> (string \<rightharpoonup> jsnum) \<Rightarrow> validationResult" where
  "validateMoonBuyInputs wallets config walletBalances =
     (if tokenAddress config = []
      then \<lparr>error = Some ''Invalid token address'', valid = False\<rparr>
      else if isNaN (solAmount config) \<or> js_le (solAmount config) (Fin 0)
      then \<lparr>error = Some ''Invalid SOL amount'', valid = False\<rparr>
      else if length wallets = 0
      then \<lparr>error = Some ''No wallets provided'', valid = False\<rparr>
      else validateWallets wallets config walletBalances)"

text \<open>
  The rejection condition in the words of the specification, where a balance is taken
  as 0 only when the address is absent from the map. It is here for comparison with the
  code.
\<close>

definition rejected_as_specified ::
    "walletMoonBuy list \<Rightarrow> tokenConfig \<Rightarrow> (string \<rightharpoonup> jsnum) \<Rightarrow> bool" where
  "rejected_as_specified wallets config walletBalances \<longleftrightarrow>
     tokenAddress config = []
     \<or> isNaN (solAmount config) \<or> \<not> js_lt (Fin 0) (solAmount config)
     \<or> wallets = []
     \<or> list_ex (\<lambda>w. address w = [] \<or> privateKey w = []) wallets
     \<or> list_ex (\<lambda>w. js_lt (case walletBalances (address w) of None \<Rightarrow> Fin 0 | Some x \<Rightarrow> x)
                          (solAmount config)) wallets"


section \<open>The custom-buy wizard: \<open>handleNext\<close> and \<open>handleBack\<close>\<close>

definition STEPS_CUSTOMBUY :: "string list" where
  "STEPS_CUSTOMBUY = [''Select Wallets'', ''Configure Buy'', ''Review'']"

text \<open>
  The state of the modal that the two handlers read or could write. \<open>walletAmounts\<close> is a
  \<open>Record<string, string>\<close>, kept as the list of its entries; \<open>toasts\<close> collects the calls
  of \<open>showToast\<close>.
\<close>

record customBuyState =
  currentStep :: int
  selectedWallets :: "string list"
  walletAmounts :: "(string \<times> string) list"
  useRpc :: bool
  isSubmitting :: bool
  isConfirmed :: bool
  toasts :: "(string \<times> string) list"

text \<open>
  \<open>parseFloat\<close> is the built-in of the language and a parameter of \<open>handleNext\<close>. The
  handler returns early, with a toast, when the validation of the current step fails.
\<close>

definition handleNext :: "(string \<Rightarrow> jsnum) \<Rightarrow> customBuyState \<Rightarrow> customBuyState" where
  "handleNext parseFloat s =
     (if currentStep s = 0 \<and> length (selectedWallets s) = 0
      then s\<lparr>toasts := toasts s @ [(''Please select at least one wallet'', ''error'')]\<rparr>
      else if currentStep s = 1
              \<and> list_ex (\<lambda>amount. amount = [] \<or> js_le (parseFloat amount) (Fin 0))
                   (map snd (walletAmounts s))
      then s\<lparr>toasts := toasts s @ [(''Please enter valid amounts for all wallets'', ''error'')]\<rparr>
      else s\<lparr>currentStep := min (currentStep s + 1) (int (length STEPS_CUSTOMBUY) - 1)\<rparr>)"

definition handleBack :: "customBuyState \<Rightarrow> customBuyState" where
  "handleBack s = s\<lparr>currentStep := max (currentStep s - 1) 0\<rparr>"

text \<open>
  \<open>parseFloat\<close> on the strings that \<open>handleWalletAmountChange\<close> lets through (digits with
  at most one dot): the longest numeric prefix, \<open>NaN\<close> when it holds no digit. The value
  is the exact decimal, where \<open>parseFloat\<close> rounds it to the nearest double (a tiny
  positive decimal becomes 0, a huge one \<open>Infinity\<close>); it is used below on \<open>0.5\<close> and
  on \<open>.\<close> only, where the two agree.
\<close>

definition isDigit :: "char \<Rightarrow> bool" where
  "isDigit c \<longleftrightarrow> c \<in> set ''0123456789''"

definition digitsValue :: "string \<Rightarrow> nat" where
  "digitsValue ds = foldl (\<lambda>acc c. 10 * acc + (of_char c - 48)) 0 ds"

definition parseDecimal :: "string \<Rightarrow> jsnum" where
  "parseDecimal s =
     (let whole = takeWhile isDigit s;
          rest = dropWhile isDigit s;
          frac = (case rest of [] \<Rightarrow> [] | c # r \<Rightarrow> if c = CHR ''.'' then takeWhile isDigit r else [])
      in if whole = [] \<and> frac = [] then NaN
         else Fin (real (digitsValue whole) + real (digitsValue frac) / 10 ^ length frac))"


text \<open>States of the wizard for the evaluations: on the review step, and on step 1.\<close>

definition reviewing :: customBuyState where
  "reviewing =
     \<lparr>currentStep = 2, selectedWallets = [''key1''], walletAmounts = [(''key1'', ''0.5'')],
      useRpc = False, isSubmitting = False, isConfirmed = True, toasts = []\<rparr>"

definition configuring :: "string \<Rightarrow> customBuyState" where
  "configuring amount =
     \<lparr>currentStep = 1, selectedWallets = [''key1''], walletAmounts = [(''key1'', amount)],
      useRpc = False, isSubmitting = False, isConfirmed = False, toasts = []\<rparr>"


section \<open>The wallet list of \<open>App.tsx\<close>: import and deletion\<close>

text \<open>\<open>WalletType\<close> has an \<open>id\<close>, an address and a private key.\<close>

record walletType = walletMoonBuy +
  walletId :: int

record appState =
  wallets :: "walletType list"
  solBalances :: "string \<rightharpoonup> jsnum"
  tokenBalances :: "string \<rightharpoonup> jsnum"
  importKey :: string
  importError :: "string option"
  isImporting :: bool

text \<open>
  The helpers of \<open>./Utils\<close> that reach the network or derive keys are the environment:
  \<open>importWallet\<close> resolves to \<open>{ wallet, error }\<close>, and each of the three may throw.
\<close>

record importResult = errorProperty +
  wallet :: "walletType option"

record walletApi =
  importWallet :: "string \<Rightarrow> error + importResult"
  fetchSolBalance :: "string \<Rightarrow> error + jsnum"
  fetchTokenBalance :: "string \<Rightarrow> string \<Rightarrow> error + jsnum"

text \<open>
  \<open>String.prototype.trim\<close> on the white space that one byte holds: space, tab, line feed,
  vertical tab, form feed and carriage return. The white space beyond ASCII (U+00A0,
  U+FEFF, the Unicode space separators and line terminators) is not modelled.
\<close>

definition isSpace :: "char \<Rightarrow> bool" where
  "isSpace c \<longleftrightarrow> c \<in> set [CHR '' '', CHR 0x09, CHR 0x0A, CHR 0x0B, CHR 0x0C, CHR 0x0D]"

definition trim :: "string \<Rightarrow> string" where
  "trim s = rev (dropWhile isSpace (rev (dropWhile isSpace s)))"

text \<open>A string property is truthy when it is present and not empty.\<close>

definition truthyString :: "string option \<Rightarrow> bool" where
  "truthyString v \<longleftrightarrow> (case v of None \<Rightarrow> False | Some t \<Rightarrow> t \<noteq> [])"

text \<open>
  \<open>handleImportWallet\<close>, with \<open>hasConnection\<close> for \<open>connection\<close> being set and \<open>token\<close> for the
  current \<open>tokenAddress\<close>. An exception anywhere in the \<open>try\<close> block is caught and sets the
  import error; state written before it stays written. The handler is modelled as one
  step: the \<open>wallets\<close> it tests, captured at render, are the current wallet list, which
  is so when no other import runs while this one awaits.
\<close>

definition handleImportWallet :: "walletApi \<Rightarrow> bool \<Rightarrow> string \<Rightarrow> appState \<Rightarrow> appState" where
  "handleImportWallet api hasConnection token s =
     (if \<not> hasConnection \<or> trim (importKey s) = []
      then s\<lparr>importError := Some ''Please enter a private key''\<rparr>
      else (case importWallet api (trim (importKey s)) of
              Inl e \<Rightarrow> s\<lparr>importError := Some ''Failed to import wallet''\<rparr>
            | Inr r \<Rightarrow>
                if truthyString (error r) then s\<lparr>importError := error r\<rparr>
                else (case wallet r of
                        None \<Rightarrow> s\<lparr>importError := Some ''Failed to import wallet''\<rparr>
                      | Some w \<Rightarrow>
                          if list_ex (\<lambda>x. address x = address w) (wallets s)
                          then s\<lparr>importError := Some ''Wallet already exists''\<rparr>
                          else (let s1 = s\<lparr>wallets := wallets s @ [w]\<rparr>
                                in case fetchSolBalance api (address w) of
                                     Inl e \<Rightarrow> s1\<lparr>importError := Some ''Failed to import wallet''\<rparr>
                                   | Inr solBalance \<Rightarrow>
                                       (let s2 = s1\<lparr>solBalances :=
                                                      (solBalances s1)(address w \<mapsto> solBalance)\<rparr>
                                        in if token \<noteq> []
                                           then (case fetchTokenBalance api (address w) token of
                                                   Inl e \<Rightarrow>
                                                     s2\<lparr>importError := Some ''Failed to import wallet''\<rparr>
                                                 | Inr tokenBalance \<Rightarrow>
                                                     s2\<lparr>tokenBalances :=
                                                          (tokenBalances s2)(address w \<mapsto> tokenBalance),
                                                        importKey := [], importError := None,
                                                        isImporting := False\<rparr>)
                                           else s2\<lparr>tokenBalances :=
                                                     (tokenBalances s2)(address w \<mapsto> Fin 0),
                                                   importKey := [], importError := None,
                                                   isImporting := False\<rparr>)))))"

text \<open>
  The loop of \<open>importWalletsSequentially\<close> over the keys found in the file. \<open>held\<close> is the
  \<open>wallets\<close> state that the function closes over; it does not change during the loop.
  The accumulator holds \<open>importedWallets\<close>, \<open>newSolBalances\<close> and \<open>newTokenBalances\<close>. Each
  key has its own \<open>try\<close>: an exception goes on to the next key and keeps what was pushed.
\<close>

fun importLoop :: "walletApi \<Rightarrow> string \<Rightarrow> walletType list \<Rightarrow> string list
    \<Rightarrow> walletType list \<times> (string \<rightharpoonup> jsnum) \<times> (string \<rightharpoonup> jsnum)
    \<Rightarrow> walletType list \<times> (string \<rightharpoonup> jsnum) \<times> (string \<rightharpoonup> jsnum)" where
  "importLoop api token held [] acc = acc"
| "importLoop api token held (key # keys) (importedWallets, newSol, newToken) =
     (case importWallet api key of
        Inl e \<Rightarrow> importLoop api token held keys (importedWallets, newSol, newToken)
      | Inr r \<Rightarrow>
          if truthyString (error r)
          then importLoop api token held keys (importedWallets, newSol, newToken)
          else (case wallet r of
                  None \<Rightarrow> importLoop api token held keys (importedWallets, newSol, newToken)
                | Some w \<Rightarrow>
                    if list_ex (\<lambda>x. address x = address w) held
                    then importLoop api token held keys (importedWallets, newSol, newToken)
                    else (case fetchSolBalance api (address w) of
                            Inl e \<Rightarrow> importLoop api token held keys
                                       (importedWallets @ [w], newSol, newToken)
                          | Inr solBalance \<Rightarrow>
                              if token \<noteq> []
                              then (case fetchTokenBalance api (address w) token of
                                      Inl e \<Rightarrow> importLoop api token held keys
                                                 (importedWallets @ [w],
                                                  newSol(address w \<mapsto> solBalance), newToken)
                                    | Inr tokenBalance \<Rightarrow> importLoop api token held keys
                                                 (importedWallets @ [w],
                                                  newSol(address w \<mapsto> solBalance),
                                                  newToken(address w \<mapsto> tokenBalance)))
                              else importLoop api token held keys
                                     (importedWallets @ [w],
                                      newSol(address w \<mapsto> solBalance),
                                      newToken(address w \<mapsto> Fin 0)))))"

text \<open>
  \<open>importWalletsSequentially\<close> as \<open>handleFileUpload\<close> runs it on the keys found in the file,
  and what the handler does with its result. The handler first clears the import error
  and gives up when the file holds no key; after the loop the balance maps are replaced
  and the imported wallets are appended to the wallet list.
\<close>

definition importWalletsSequentially :: "walletApi \<Rightarrow> string \<Rightarrow> appState \<Rightarrow> string list \<Rightarrow> appState" where
  "importWalletsSequentially api token s foundKeys =
     (let s0 = s\<lparr>importError := None\<rparr>
      in if length foundKeys = 0
         then s0\<lparr>importError := Some ''No valid private keys found in file''\<rparr>
         else (case importLoop api token (wallets s0) foundKeys
                      ([], solBalances s0, tokenBalances s0) of
                 (importedWallets, newSol, newToken) \<Rightarrow>
                   (let s1 = s0\<lparr>solBalances := newSol, tokenBalances := newToken\<rparr>
                    in if length importedWallets = 0
                       then s1\<lparr>importError := Some ''No new wallets could be imported''\<rparr>
                       else s1\<lparr>wallets := wallets s1 @ importedWallets\<rparr>)))"

text \<open>
  Modelled from the spec: \<open>deleteWallet\<close> of \<open>./Utils\<close> is not among the sources. A wallet
  is destroyed on explicit user deletion: the wallet with the given id is removed from
  the list, the other wallets stay, in their order.
\<close>

definition deleteWallet :: "walletType list \<Rightarrow> int \<Rightarrow> walletType list" where
  "deleteWallet ws i = filter (\<lambda>w. walletId w \<noteq> i) ws"

definition handleDeleteWallet :: "int \<Rightarrow> appState \<Rightarrow> appState" where
  "handleDeleteWallet i s =
     (let s1 = (case find (\<lambda>w. walletId w = i) (wallets s) of
                  Some walletToDelete \<Rightarrow>
                    s\<lparr>solBalances := (solBalances s)(address walletToDelete := None),
                      tokenBalances := (tokenBalances s)(address walletToDelete := None)\<rparr>
                | None \<Rightarrow> s)
      in s1\<lparr>wallets := deleteWallet (wallets s1) i\<rparr>)"

text \<open>An environment for the evaluations: the address is the first character of the key.\<close>

definition toyApi :: walletApi where
  "toyApi =
     \<lparr>importWallet = (\<lambda>key. if key = ''bad'' then Inr \<lparr>error = Some ''Invalid private key format'', wallet = None\<rparr>
                            else Inr \<lparr>error = None,
                                      wallet = Some \<lparr>address = take 1 key, privateKey = key,
                                                     walletId = int (length key)\<rparr>\<rparr>),
      fetchSolBalance = (\<lambda>a. Inr (Fin 1)),
      fetchTokenBalance = (\<lambda>a t. Inr (Fin 0))\<rparr>"

definition emptyApp :: appState where
  "emptyApp =
     \<lparr>wallets = [], solBalances = Map.empty, tokenBalances = Map.empty,
      importKey = [], importError = None, isImporting = False\<rparr>"


text \<open>A state with two wallets and their balances, for the evaluations.\<close>

definition twoWallets :: appState where
  "twoWallets =
     \<lparr>wallets = [\<lparr>address = ''A'', privateKey = ''Akey'', walletId = 1\<rparr>,
                 \<lparr>address = ''B'', privateKey = ''Bkey'', walletId = 2\<rparr>],
      solBalances = [''A'' \<mapsto> Fin 1, ''B'' \<mapsto> Fin 2],
      tokenBalances = [''A'' \<mapsto> Fin 0, ''B'' \<mapsto> Fin 7],
      importKey = [], importError = None, isImporting = False\<rparr>"


section \<open>Properties of the rate limiter\<close>

lemma checkRateLimit_cases:
  "maxBundlesPerSecond s = MAX_BUNDLES_PER_SECOND \<Longrightarrow>
   checkRateLimit s now wake =
     (if now - lastReset s \<ge> 1000 then (s\<lparr>count := 1, lastReset := now\<rparr>, None)
      else if count s \<ge> MAX_BUNDLES_PER_SECOND
        then (s\<lparr>count := 1, lastReset := wake\<rparr>, Some (1000 - (now - lastReset s)))
      else (s\<lparr>count := count s + 1\<rparr>, None))"
  by (simp add: checkRateLimit_def MAX_BUNDLES_PER_SECOND_def Let_def)




text \<open>
  C1 (as amended). With the cap at 2, a call of \<open>checkRateLimit\<close> does exactly one of three
  things. When at least one second (1000 ms, the code compares with \<open>>=\<close>) has elapsed
  since the window start, it resets the count and sets the window start to the current
  time. Otherwise, when the count has reached the cap, it sleeps exactly
  \<open>1000 - elapsed\<close> ms, which is strictly positive there, and then resets the count and
  sets the window start to the time after the sleep. Otherwise it leaves the window alone.
  In every case the count is finally incremented by one, and the call sleeps in the
  second case only.
\<close>

theorem checkRateLimit_window_algorithm:
  assumes "maxBundlesPerSecond s = MAX_BUNDLES_PER_SECOND"
  shows "checkRateLimit s now wake =
           (if now - lastReset s \<ge> 1000 then (s\<lparr>count := 0 + 1, lastReset := now\<rparr>, None)
            else if count s \<ge> 2
              then (s\<lparr>count := 0 + 1, lastReset := wake\<rparr>, Some (1000 - (now - lastReset s)))
            else (s\<lparr>count := count s + 1\<rparr>, None))
         \<and> (case snd (checkRateLimit s now wake) of
              None \<Rightarrow> True
            | Some d \<Rightarrow> d = 1000 - (now - lastReset s) \<and> 0 < d
                        \<and> now - lastReset s < 1000 \<and> count s \<ge> 2)"
  using assms by (simp add: checkRateLimit_cases) (simp add: MAX_BUNDLES_PER_SECOND_def)

theorem checkRateLimit_window_algorithm_witness:
  "maxBundlesPerSecond \<lparr>count = 2, lastReset = 100, maxBundlesPerSecond = 2\<rparr>
     = MAX_BUNDLES_PER_SECOND
   \<and> checkRateLimit \<lparr>count = 2, lastReset = 100, maxBundlesPerSecond = 2\<rparr> 400 1105
     = (\<lparr>count = 1, lastReset = 1105, maxBundlesPerSecond = 2\<rparr>, Some 700)"
  using checkRateLimit_window_algorithm
          [of "\<lparr>count = 2, lastReset = 100, maxBundlesPerSecond = 2\<rparr>" 400 1105]
  by (simp add: MAX_BUNDLES_PER_SECOND_def)

text \<open>
  The claim as the specification words it fails on the boundary: when exactly 1000 ms
  have elapsed (not more than one second), the code already resets the window, while the
  specified algorithm keeps counting in the old one.
\<close>

theorem checkRateLimit_boundary_counterexample:
  "checkRateLimit \<lparr>count = 1, lastReset = 0, maxBundlesPerSecond = 2\<rparr> 1000 1000
     = (\<lparr>count = 1, lastReset = 1000, maxBundlesPerSecond = 2\<rparr>, None)
   \<and> checkRateLimit_as_specified \<lparr>count = 1, lastReset = 0, maxBundlesPerSecond = 2\<rparr> 1000 1000
     = (\<lparr>count = 2, lastReset = 0, maxBundlesPerSecond = 2\<rparr>, None)"
  by (simp add: checkRateLimit_def checkRateLimit_as_specified_def MAX_BUNDLES_PER_SECOND_def)








section \<open>Properties of signing\<close>

lemma mapE_Inr_iff: "mapE f xs = Inr ys \<longleftrightarrow> map f xs = map Inr ys"
proof (induction xs arbitrary: ys)
  case Nil
  show ?case by auto
next
  case (Cons x xs)
  show ?case
  proof (cases "f x")
    case (Inl e)
    then show ?thesis by (cases ys) auto
  next
    case (Inr y)
    show ?thesis
    proof (cases "mapE f xs")
      case (Inl e)
      with Inr Cons.IH show ?thesis by (cases ys) auto
    next
      case r: (Inr zs)
      with Inr Cons.IH show ?thesis by (cases ys) auto
    qed
  qed
qed

lemma mapE_Inr_nth:
  assumes "mapE f xs = Inr ys"
  shows "length ys = length xs \<and> (\<forall>i<length xs. f (xs ! i) = Inr (ys ! i))"
proof -
  have m: "map f xs = map Inr ys" using assms by (simp add: mapE_Inr_iff)
  then have l: "length ys = length xs" by (metis length_map)
  have "\<forall>i<length xs. f (xs ! i) = Inr (ys ! i)"
  proof (intro allI impI)
    fix i assume i: "i < length xs"
    have "f (xs ! i) = map f xs ! i" using i by simp
    also have "\<dots> = map Inr ys ! i" by (simp only: m)
    also have "\<dots> = Inr (ys ! i)" using i l by simp
    finally show "f (xs ! i) = Inr (ys ! i)" .
  qed
  with l show ?thesis by simp
qed

lemma collectSigners_set:
  "set (collectSigners kps keys acc) =
     set acc \<union> {kp. \<exists>k \<in> set keys. find (\<lambda>q. publicKey q = k) kps = Some kp}"
  by (induction kps keys acc rule: collectSigners.induct) (auto split: option.splits)

lemma collectSigners_distinct:
  "distinct acc \<Longrightarrow> distinct (collectSigners kps keys acc)"
  by (induction kps keys acc rule: collectSigners.induct) (auto split: option.splits)

lemma find_key_held:
  "find (\<lambda>q. publicKey q = k) kps = Some kp \<Longrightarrow> publicKey kp = k \<and> kp \<in> set kps"
  by (induction kps) (auto split: if_splits)

lemma collectSigners_first_held:
  "set (collectSigners kps keys []) =
     {kp \<in> set kps. publicKey kp \<in> set keys
        \<and> find (\<lambda>q. publicKey q = publicKey kp) kps = Some kp}"
proof -
  have "(\<exists>k \<in> set keys. find (\<lambda>q. publicKey q = k) kps = Some kp) \<longleftrightarrow>
        (kp \<in> set kps \<and> publicKey kp \<in> set keys
           \<and> find (\<lambda>q. publicKey q = publicKey kp) kps = Some kp)" for kp
  proof
    assume "\<exists>k \<in> set keys. find (\<lambda>q. publicKey q = k) kps = Some kp"
    then obtain k where k: "k \<in> set keys" and f: "find (\<lambda>q. publicKey q = k) kps = Some kp"
      by blast
    have "publicKey kp = k \<and> kp \<in> set kps" using f by (rule find_key_held)
    then show "kp \<in> set kps \<and> publicKey kp \<in> set keys
           \<and> find (\<lambda>q. publicKey q = publicKey kp) kps = Some kp"
      using k f by simp
  next
    assume "kp \<in> set kps \<and> publicKey kp \<in> set keys
           \<and> find (\<lambda>q. publicKey q = publicKey kp) kps = Some kp"
    then show "\<exists>k \<in> set keys. find (\<lambda>q. publicKey q = k) kps = Some kp" by blast
  qed
  then show ?thesis by (simp add: collectSigners_set)
qed

lemma find_determined_key:
  assumes "inj_on publicKey (set kps)" and "kp \<in> set kps"
  shows "find (\<lambda>q. publicKey q = publicKey kp) kps = Some kp"
proof (cases "find (\<lambda>q. publicKey q = publicKey kp) kps")
  case None
  then show ?thesis using assms(2) by (auto simp: find_None_iff)
next
  case (Some q)
  then have "publicKey q = publicKey kp \<and> q \<in> set kps" by (rule find_key_held)
  then have "q = kp" using assms by (auto dest: inj_onD)
  then show ?thesis using Some by simp
qed

lemma collectSigners_all_held:
  assumes "inj_on publicKey (set kps)"
  shows "set (collectSigners kps keys []) = {kp \<in> set kps. publicKey kp \<in> set keys}"
  using find_determined_key [OF assms] by (auto simp: collectSigners_first_held)

lemma signTransaction_Inr:
  "signTransaction lib kps blob = Inr out \<longleftrightarrow>
     (\<exists>tx tx'. deserialize lib blob = Inr tx
        \<and> sign lib tx (collectSigners kps (staticAccountKeys lib tx) []) = Inr tx'
        \<and> serialize lib tx' = Inr out)"
  by (auto simp: signTransaction_def split: sum.splits)

lemma signed_in_order:
  assumes "mapE (signTransaction lib kps) txs = Inr signed"
  shows "length signed = length txs \<and>
     (\<forall>i<length txs. \<exists>tx tx'. deserialize lib (txs ! i) = Inr tx
        \<and> sign lib tx (collectSigners kps (staticAccountKeys lib tx) []) = Inr tx'
        \<and> serialize lib tx' = Inr (signed ! i))"
  using mapE_Inr_nth [OF assms] by (simp add: signTransaction_Inr)

text \<open>
  C4 (as amended). Signing is by public-key membership. For every bundle whose
  \<open>transactions\<close> is an array and every list of held keypairs, whenever
  \<open>completeBundleSigning\<close> (or \<open>signTransactions\<close>, on the keypairs built from the private
  keys) returns, its output holds exactly one transaction per input transaction, in the
  same order, each the re-encoding of the decoded input signed by the collected signers.
  The collected signers are pairwise different (each keypair is included at most once),
  and for held keypairs that their public key determines, as the library builds them,
  the set of signers is exactly the held keypairs whose public key occurs among the
  transaction's \<open>staticAccountKeys\<close>.
\<close>

theorem signing_by_public_key_membership:
  "distinct (collectSigners kps keys [])
   \<and> (inj_on publicKey (set kps) \<longrightarrow>
        set (collectSigners kps keys []) = {kp \<in> set kps. publicKey kp \<in> set keys})
   \<and> (completeBundleSigning lib \<lparr>transactions = JArray txs\<rparr> kps = Inr out \<longrightarrow>
        (\<exists>signed. out = \<lparr>transactions = JArray signed\<rparr> \<and> length signed = length txs
           \<and> (\<forall>i<length txs. \<exists>tx tx'. deserialize lib (txs ! i) = Inr tx
                 \<and> sign lib tx (collectSigners kps (staticAccountKeys lib tx) []) = Inr tx'
                 \<and> serialize lib tx' = Inr (signed ! i))))
   \<and> (signTransactions lib \<lparr>transactions = JArray txs\<rparr> privateKeys = Inr out \<longrightarrow>
        (\<exists>held signed. mapE (fromSecretKey lib) privateKeys = Inr held
           \<and> out = \<lparr>transactions = JArray signed\<rparr> \<and> length signed = length txs
           \<and> (\<forall>i<length txs. \<exists>tx tx'. deserialize lib (txs ! i) = Inr tx
                 \<and> sign lib tx (collectSigners held (staticAccountKeys lib tx) []) = Inr tx'
                 \<and> serialize lib tx' = Inr (signed ! i))))"
proof -
  have a: "distinct (collectSigners kps keys [])"
    by (simp add: collectSigners_distinct)
  have b: "inj_on publicKey (set kps) \<longrightarrow>
        set (collectSigners kps keys []) = {kp \<in> set kps. publicKey kp \<in> set keys}"
    using collectSigners_all_held by blast
  have c: "completeBundleSigning lib \<lparr>transactions = JArray txs\<rparr> kps = Inr out \<longrightarrow>
        (\<exists>signed. out = \<lparr>transactions = JArray signed\<rparr> \<and> length signed = length txs
           \<and> (\<forall>i<length txs. \<exists>tx tx'. deserialize lib (txs ! i) = Inr tx
                 \<and> sign lib tx (collectSigners kps (staticAccountKeys lib tx) []) = Inr tx'
                 \<and> serialize lib tx' = Inr (signed ! i)))"
  proof
    assume h: "completeBundleSigning lib \<lparr>transactions = JArray txs\<rparr> kps = Inr out"
    then obtain signed where s: "mapE (signTransaction lib kps) txs = Inr signed"
      and o: "out = \<lparr>transactions = JArray signed\<rparr>"
      by (auto simp: completeBundleSigning_def split: sum.splits)
    show "\<exists>signed. out = \<lparr>transactions = JArray signed\<rparr> \<and> length signed = length txs
           \<and> (\<forall>i<length txs. \<exists>tx tx'. deserialize lib (txs ! i) = Inr tx
                 \<and> sign lib tx (collectSigners kps (staticAccountKeys lib tx) []) = Inr tx'
                 \<and> serialize lib tx' = Inr (signed ! i))"
      using o signed_in_order [OF s] by blast
  qed
  have d: "signTransactions lib \<lparr>transactions = JArray txs\<rparr> privateKeys = Inr out \<longrightarrow>
        (\<exists>held signed. mapE (fromSecretKey lib) privateKeys = Inr held
           \<and> out = \<lparr>transactions = JArray signed\<rparr> \<and> length signed = length txs
           \<and> (\<forall>i<length txs. \<exists>tx tx'. deserialize lib (txs ! i) = Inr tx
                 \<and> sign lib tx (collectSigners held (staticAccountKeys lib tx) []) = Inr tx'
                 \<and> serialize lib tx' = Inr (signed ! i)))"
  proof
    assume h: "signTransactions lib \<lparr>transactions = JArray txs\<rparr> privateKeys = Inr out"
    then obtain held signed where k: "mapE (fromSecretKey lib) privateKeys = Inr held"
      and s: "mapE (signTransaction lib held) txs = Inr signed"
      and o: "out = \<lparr>transactions = JArray signed\<rparr>"
      by (auto simp: signTransactions_def split: sum.splits)
    show "\<exists>held signed. mapE (fromSecretKey lib) privateKeys = Inr held
           \<and> out = \<lparr>transactions = JArray signed\<rparr> \<and> length signed = length txs
           \<and> (\<forall>i<length txs. \<exists>tx tx'. deserialize lib (txs ! i) = Inr tx
                 \<and> sign lib tx (collectSigners held (staticAccountKeys lib tx) []) = Inr tx'
                 \<and> serialize lib tx' = Inr (signed ! i))"
      using k o signed_in_order [OF s] by blast
  qed
  show ?thesis by (intro conjI a b c d)
qed

theorem signing_by_public_key_membership_witness:
  "inj_on publicKey (set [heldA, heldB, heldA])
   \<and> completeBundleSigning toySdk \<lparr>transactions = JArray [''AC'', ''B'']\<rparr> [heldA, heldB, heldA]
       = Inr \<lparr>transactions = JArray [''AC|Akey'', ''B|Bkey'']\<rparr>
   \<and> signTransactions toySdk \<lparr>transactions = JArray [''AC'', ''B'']\<rparr>
         [''Akey'', ''Bkey'', ''Akey'']
       = Inr \<lparr>transactions = JArray [''AC|Akey'', ''B|Bkey'']\<rparr>
   \<and> collectSigners [heldA, heldB, heldA] [''A'', ''C''] [] = [heldA]
   \<and> set (collectSigners [heldA, heldB, heldA] [''A'', ''C''] [])
       = {kp \<in> set [heldA, heldB, heldA]. publicKey kp \<in> set [''A'', ''C'']}"
proof -
  have h1: "inj_on publicKey (set [heldA, heldB, heldA])"
    by (auto simp: inj_on_def heldA_def heldB_def)
  have h2: "completeBundleSigning toySdk \<lparr>transactions = JArray [''AC'', ''B'']\<rparr>
         [heldA, heldB, heldA]
       = Inr \<lparr>transactions = JArray [''AC|Akey'', ''B|Bkey'']\<rparr>"
    by (simp add: completeBundleSigning_def signTransaction_def toySdk_def heldA_def heldB_def)
  have h3: "signTransactions toySdk \<lparr>transactions = JArray [''AC'', ''B'']\<rparr>
         [''Akey'', ''Bkey'', ''Akey'']
       = Inr \<lparr>transactions = JArray [''AC|Akey'', ''B|Bkey'']\<rparr>"
    by (simp add: signTransactions_def signTransaction_def toySdk_def)
  have h4: "collectSigners [heldA, heldB, heldA] [''A'', ''C''] [] = [heldA]"
    by (simp add: heldA_def heldB_def)
  note t = signing_by_public_key_membership
             [where kps = "[heldA, heldB, heldA]" and keys = "[''A'', ''C'']" and lib = toySdk
                and txs = "[''AC'', ''B'']" and privateKeys = "[''Akey'', ''Bkey'', ''Akey'']"
                and out = "\<lparr>transactions = JArray [''AC|Akey'', ''B|Bkey'']\<rparr>"]
  have "set (collectSigners [heldA, heldB, heldA] [''A'', ''C''] [])
       = {kp \<in> set [heldA, heldB, heldA]. publicKey kp \<in> set [''A'', ''C'']}"
    using t h1 by blast
  then show ?thesis using h1 h2 h3 h4 by blast
qed

text \<open>
  The claim as stated fails for a bundle with a blob that does not decode: the exception
  of the library leaves the function, and there is no output bundle, and so no signed
  transaction for any of the input transactions.
\<close>

theorem signing_undecodable_blob_counterexample:
  "completeBundleSigning toySdk \<lparr>transactions = JArray [''A'', ''!'']\<rparr> [heldA]
     = Inl (Error ''Non-base58 character'')
   \<and> signTransactions toySdk \<lparr>transactions = JArray [''A'', ''!'']\<rparr> [''Akey'']
     = Inl (Error ''Non-base58 character'')"
  by (simp add: completeBundleSigning_def signTransactions_def signTransaction_def toySdk_def
        heldA_def)

text \<open>
  C10. A bundle whose \<open>transactions\<close> property is missing or is not an array makes both
  \<open>completeBundleSigning\<close> and \<open>signTransactions\<close> return the bundle
  \<open>{ transactions: [] }\<close>; neither throws, whatever the keypairs or private keys are.
  So when the bundles are signed one after the other (\<open>bundles.map\<close>), the malformed bundle
  contributes an empty bundle and the signing goes on with the other bundles.
\<close>

theorem malformed_bundle_absorbed:
  assumes "transactions b = JUndefined \<or> \<not> isArray (transactions b)"
  shows "completeBundleSigning lib b walletKeypairs = Inr \<lparr>transactions = JArray []\<rparr>
         \<and> signTransactions lib b privateKeys = Inr \<lparr>transactions = JArray []\<rparr>
         \<and> mapE (\<lambda>x. completeBundleSigning lib x walletKeypairs) (b # others)
             = (case mapE (\<lambda>x. completeBundleSigning lib x walletKeypairs) others of
                  Inl e \<Rightarrow> Inl e
                | Inr signed \<Rightarrow> Inr (\<lparr>transactions = JArray []\<rparr> # signed))
         \<and> mapE (\<lambda>x. signTransactions lib x privateKeys) (b # others)
             = (case mapE (\<lambda>x. signTransactions lib x privateKeys) others of
                  Inl e \<Rightarrow> Inl e
                | Inr signed \<Rightarrow> Inr (\<lparr>transactions = JArray []\<rparr> # signed))"
proof -
  have a: "completeBundleSigning lib b walletKeypairs = Inr \<lparr>transactions = JArray []\<rparr>"
    using assms by (auto simp: completeBundleSigning_def)
  have c: "signTransactions lib b privateKeys = Inr \<lparr>transactions = JArray []\<rparr>"
    using assms by (auto simp: signTransactions_def)
  show ?thesis by (simp add: a c)
qed

theorem malformed_bundle_absorbed_witness:
  "(transactions \<lparr>transactions = JString ''oops''\<rparr> = JUndefined
      \<or> \<not> isArray (transactions \<lparr>transactions = JString ''oops''\<rparr>))
   \<and> completeBundleSigning toySdk \<lparr>transactions = JString ''oops''\<rparr> [heldA]
       = Inr \<lparr>transactions = JArray []\<rparr>
   \<and> signTransactions toySdk \<lparr>transactions = JString ''oops''\<rparr> ['''']
       = Inr \<lparr>transactions = JArray []\<rparr>
   \<and> mapE (\<lambda>x. completeBundleSigning toySdk x [heldA])
        [\<lparr>transactions = JString ''oops''\<rparr>, \<lparr>transactions = JArray [''AC'']\<rparr>]
       = Inr [\<lparr>transactions = JArray []\<rparr>, \<lparr>transactions = JArray [''AC|Akey'']\<rparr>]"
proof -
  have h: "transactions \<lparr>transactions = JString ''oops''\<rparr> = JUndefined
      \<or> \<not> isArray (transactions \<lparr>transactions = JString ''oops''\<rparr>)"
    by simp
  note t = malformed_bundle_absorbed
             [OF h, where lib = toySdk and walletKeypairs = "[heldA]" and privateKeys = "['''']"
                and others = "[\<lparr>transactions = JArray [''AC'']\<rparr>]"]
  have r: "mapE (\<lambda>x. completeBundleSigning toySdk x [heldA]) [\<lparr>transactions = JArray [''AC'']\<rparr>]
             = Inr [\<lparr>transactions = JArray [''AC|Akey'']\<rparr>]"
    by (simp add: completeBundleSigning_def signTransaction_def toySdk_def heldA_def)
  have m: "mapE (\<lambda>x. completeBundleSigning toySdk x [heldA])
        [\<lparr>transactions = JString ''oops''\<rparr>, \<lparr>transactions = JArray [''AC'']\<rparr>]
       = Inr [\<lparr>transactions = JArray []\<rparr>, \<lparr>transactions = JArray [''AC|Akey'']\<rparr>]"
    unfolding t [THEN conjunct2, THEN conjunct2, THEN conjunct1] r by simp
  show ?thesis using h t m by blast
qed


section \<open>Properties of bundle submission\<close>

lemma sendLoop_trace:
  "trace (fst (sendLoop net n i bs st)) = trace st @ loopTrace net n i bs"
proof (induction bs arbitrary: i st)
  case Nil
  show ?case by simp
next
  case (Cons b bs)
  show ?case
  proof (cases "sendBundle net i (transactions b)")
    case (Inl e)
    then show ?thesis by (simp add: Let_def)
  next
    case (Inr r)
    then show ?thesis by (simp add: Let_def Cons.IH)
  qed
qed

lemma loopTrace_sequential: "sequentialTrace n i bs (loopTrace net n i bs)"
proof (induction bs arbitrary: i)
  case Nil
  show ?case by simp
next
  case (Cons b bs)
  show ?case
  proof (cases "sendBundle net i (transactions b)")
    case (Inl e)
    then show ?thesis by simp
  next
    case (Inr r)
    then show ?thesis using Cons.IH [of "i + 1"] by (simp add: Let_def)
  qed
qed

lemma sendLoop_outcome:
  "(case mapE (postOf net) (enumerate i bs) of
      Inl e \<Rightarrow> snd (sendLoop net n i bs st) = Some e
    | Inr rs \<Rightarrow> snd (sendLoop net n i bs st) = None
                \<and> results (fst (sendLoop net n i bs st)) = results st @ rs)"
proof (induction bs arbitrary: i st)
  case Nil
  show ?case by simp
next
  case (Cons b bs)
  show ?case
  proof (cases "sendBundle net i (transactions b)")
    case (Inl e)
    then show ?thesis by (simp add: Let_def postOf_def)
  next
    case (Inr r)
    show ?thesis
      using Inr Cons.IH [of "Suc i"]
      by (auto simp: Let_def postOf_def split: sum.splits)
  qed
qed

lemma sentIndices_loopTrace:
  "distinct (sentIndices (loopTrace net n i bs))
   \<and> set (sentIndices (loopTrace net n i bs)) \<subseteq> {i ..< i + length bs}"
proof (induction bs arbitrary: i)
  case Nil
  show ?case by simp
next
  case (Cons b bs)
  show ?case
  proof (cases "sendBundle net i (transactions b)")
    case (Inl e)
    then show ?thesis by simp
  next
    case (Inr r)
    then show ?thesis using Cons.IH [of "i + 1"] by (auto simp: Let_def)
  qed
qed

text \<open>
  C3 (as amended). The moon-buy path submits bundles sequentially with a fixed delay and
  a per-second cap: for every list of signed bundles the loop of \<open>executeMoonBuy\<close> appends
  a sequential trace, in which every send comes right after its rate-limit check,
  bundle \<open>i + 1\<close> is sent only after the send of bundle \<open>i\<close> has resolved, and a delay of
  500 ms follows every resolved bundle except the last. The trace of \<open>executeMoonBuy\<close> is
  of this form whenever the bundles have been fetched and signed.
\<close>

theorem moon_buy_submits_sequentially:
  "trace (fst (sendLoop net (length bs) 0 bs st)) = trace st @ loopTrace net (length bs) 0 bs
   \<and> sequentialTrace (length bs) 0 bs (loopTrace net (length bs) 0 bs)
   \<and> (getPartiallyPreparedTransactions net (map address ws) config amounts = Inr bundles
        \<and> mapE (fromSecretKey lib) (map privateKey ws) = Inr kps
        \<and> mapE (\<lambda>b. completeBundleSigning lib b kps) bundles = Inr signed
      \<longrightarrow> sequentialTrace (length signed) 0 signed
            (trace (fst (executeMoonBuy lib net rl ws config amounts))))"
proof -
  have a: "trace (fst (sendLoop net (length bs) 0 bs st))
             = trace st @ loopTrace net (length bs) 0 bs"
    by (rule sendLoop_trace)
  have b: "sequentialTrace (length bs) 0 bs (loopTrace net (length bs) 0 bs)"
    by (rule loopTrace_sequential)
  have c: "sequentialTrace (length signed) 0 signed
            (trace (fst (executeMoonBuy lib net rl ws config amounts)))"
    if f: "getPartiallyPreparedTransactions net (map address ws) config amounts = Inr bundles"
      and k: "mapE (fromSecretKey lib) (map privateKey ws) = Inr kps"
      and s: "mapE (\<lambda>b. completeBundleSigning lib b kps) bundles = Inr signed"
  proof -
    let ?st0 = "\<lparr>rateLimit = rl, results = [], trace = []\<rparr>"
    have "trace (fst (executeMoonBuy lib net rl ws config amounts))
            = trace (fst (sendLoop net (length signed) 0 signed ?st0))"
      using f k s
      by (simp add: executeMoonBuy_def executeMoonBuy_try_def Let_def
            split: prod.splits option.splits)
    also have "\<dots> = loopTrace net (length signed) 0 signed"
      by (simp add: sendLoop_trace)
    finally show ?thesis by (simp add: loopTrace_sequential)
  qed
  show ?thesis using a b c by blast
qed

theorem moon_buy_submits_sequentially_witness:
  "getPartiallyPreparedTransactions toyNetwork (map address [\<lparr>address = ''A'', privateKey = ''Akey''\<rparr>])
       \<lparr>tokenAddress = ''T'', solAmount = Fin 1\<rparr> None
     = Inr [\<lparr>transactions = JArray [''AC'']\<rparr>, \<lparr>transactions = JArray [''B'']\<rparr>]
   \<and> mapE (fromSecretKey toySdk) (map privateKey [\<lparr>address = ''A'', privateKey = ''Akey''\<rparr>])
     = Inr [heldA]
   \<and> mapE (\<lambda>b. completeBundleSigning toySdk b [heldA])
        [\<lparr>transactions = JArray [''AC'']\<rparr>, \<lparr>transactions = JArray [''B'']\<rparr>]
     = Inr [\<lparr>transactions = JArray [''AC|Akey'']\<rparr>, \<lparr>transactions = JArray [''B|'']\<rparr>]
   \<and> sequentialTrace 2 0
        [\<lparr>transactions = JArray [''AC|Akey'']\<rparr>, \<lparr>transactions = JArray [''B|'']\<rparr>]
        (trace (fst (executeMoonBuy toySdk toyNetwork (initialRateLimitState 0)
           [\<lparr>address = ''A'', privateKey = ''Akey''\<rparr>]
           \<lparr>tokenAddress = ''T'', solAmount = Fin 1\<rparr> None)))"
proof -
  have f: "getPartiallyPreparedTransactions toyNetwork
       (map address [\<lparr>address = ''A'', privateKey = ''Akey''\<rparr>])
       \<lparr>tokenAddress = ''T'', solAmount = Fin 1\<rparr> None
     = Inr [\<lparr>transactions = JArray [''AC'']\<rparr>, \<lparr>transactions = JArray [''B'']\<rparr>]"
    by (simp add: toyNetwork_def)
  have k: "mapE (fromSecretKey toySdk) (map privateKey [\<lparr>address = ''A'', privateKey = ''Akey''\<rparr>])
     = Inr [heldA]"
    by (simp add: toySdk_def heldA_def)
  have s: "mapE (\<lambda>b. completeBundleSigning toySdk b [heldA])
        [\<lparr>transactions = JArray [''AC'']\<rparr>, \<lparr>transactions = JArray [''B'']\<rparr>]
     = Inr [\<lparr>transactions = JArray [''AC|Akey'']\<rparr>, \<lparr>transactions = JArray [''B|'']\<rparr>]"
    by (simp add: completeBundleSigning_def signTransaction_def toySdk_def heldA_def)
  note t = moon_buy_submits_sequentially
             [where net = toyNetwork and lib = toySdk and kps = "[heldA]"
                and ws = "[\<lparr>address = ''A'', privateKey = ''Akey''\<rparr>]"
                and config = "\<lparr>tokenAddress = ''T'', solAmount = Fin 1\<rparr>" and amounts = None
                and bundles = "[\<lparr>transactions = JArray [''AC'']\<rparr>, \<lparr>transactions = JArray [''B'']\<rparr>]"
                and signed = "[\<lparr>transactions = JArray [''AC|Akey'']\<rparr>,
                               \<lparr>transactions = JArray [''B|'']\<rparr>]"
                and rl = "initialRateLimitState 0",
              THEN conjunct2, THEN conjunct2]
  have "sequentialTrace (length [\<lparr>transactions = JArray [''AC|Akey'']\<rparr>, \<lparr>transactions = JArray [''B|'']\<rparr>]) 0
        [\<lparr>transactions = JArray [''AC|Akey'']\<rparr>, \<lparr>transactions = JArray [''B|'']\<rparr>]
        (trace (fst (executeMoonBuy toySdk toyNetwork (initialRateLimitState 0)
           [\<lparr>address = ''A'', privateKey = ''Akey''\<rparr>]
           \<lparr>tokenAddress = ''T'', solAmount = Fin 1\<rparr> None)))"
    using t f k s by blast
  then show ?thesis using f k s by simp
qed

text \<open>
  The custom-buy path does none of this: \<open>sendSignedTransactions\<close> starts the send of
  every bundle before any send has resolved, inserts no delay and makes no rate-limit
  check.
\<close>

theorem custom_buy_sends_at_once_counterexample:
  "fst (sendSignedTransactions (\<lambda>i p u. Inr ''ok'') [0, 1]
          [\<lparr>transactions = JArray [''x'']\<rparr>, \<lparr>transactions = JArray [''y'']\<rparr>] False)
     = [SendBundle 0 (JArray [''x'']), SendBundle 1 (JArray [''y'']),
        SendResolved 0, SendResolved 1]
   \<and> \<not> sequentialTrace 2 0
          [\<lparr>transactions = JArray [''x'']\<rparr>, \<lparr>transactions = JArray [''y'']\<rparr>]
          (fst (sendSignedTransactions (\<lambda>i p u. Inr ''ok'') [0, 1]
             [\<lparr>transactions = JArray [''x'']\<rparr>, \<lparr>transactions = JArray [''y'']\<rparr>] False))"
  by (simp add: sendSignedTransactions_def Let_def enumerate_eq_zip)

text \<open>
  C6. \<open>executeMoonBuy\<close> never propagates an exception and does not retry. Its result is
  \<open>{ success: true, result }\<close> with the results of all sends, in order, when fetching,
  building the keypairs, signing and every send succeed, and \<open>{ success: false, error }\<close>
  with the message of the first step that throws otherwise; in either case the send of
  each bundle is started at most once.
\<close>

theorem executeMoonBuy_never_throws:
  "snd (executeMoonBuy lib net rl ws config amounts) =
     (case getPartiallyPreparedTransactions net (map address ws) config amounts of
        Inl e \<Rightarrow> \<lparr>error = Some (message e), success = False, result = None\<rparr>
      | Inr bundles \<Rightarrow>
          (case mapE (fromSecretKey lib) (map privateKey ws) of
             Inl e \<Rightarrow> \<lparr>error = Some (message e), success = False, result = None\<rparr>
           | Inr kps \<Rightarrow>
               (case mapE (\<lambda>b. completeBundleSigning lib b kps) bundles of
                  Inl e \<Rightarrow> \<lparr>error = Some (message e), success = False, result = None\<rparr>
                | Inr signed \<Rightarrow>
                    (case mapE (postOf net) (enumerate 0 signed) of
                       Inl e \<Rightarrow> \<lparr>error = Some (message e), success = False, result = None\<rparr>
                     | Inr rs \<Rightarrow> \<lparr>error = None, success = True, result = Some rs\<rparr>))))
   \<and> distinct (sentIndices (trace (fst (executeMoonBuy lib net rl ws config amounts))))"
proof -
  let ?st0 = "\<lparr>rateLimit = rl, results = [], trace = []\<rparr>"
  have loop: "(case sendLoop net (length signed) 0 signed ?st0 of
                 (st, Some e) \<Rightarrow> (st, Inl e)
               | (st, None) \<Rightarrow> (st, Inr (results st)))
              = (fst (sendLoop net (length signed) 0 signed ?st0),
                 (case mapE (postOf net) (enumerate 0 signed) of
                    Inl e \<Rightarrow> Inl e | Inr rs \<Rightarrow> Inr rs))" for signed
    using sendLoop_outcome [where net = net and i = 0 and bs = signed and n = "length signed"
            and st = ?st0]
    by (auto split: sum.splits prod.splits option.splits)
  have r: ?thesis if "getPartiallyPreparedTransactions net (map address ws) config amounts = Inl e" for e
    using that by (simp add: executeMoonBuy_def executeMoonBuy_try_def Let_def)
  have s: ?thesis if f: "getPartiallyPreparedTransactions net (map address ws) config amounts = Inr bundles" for bundles
  proof (cases "mapE (fromSecretKey lib) (map privateKey ws)")
    case (Inl e)
    with f show ?thesis by (simp add: executeMoonBuy_def executeMoonBuy_try_def Let_def)
  next
    case k: (Inr kps)
    show ?thesis
    proof (cases "mapE (\<lambda>b. completeBundleSigning lib b kps) bundles")
      case (Inl e)
      with f k show ?thesis by (simp add: executeMoonBuy_def executeMoonBuy_try_def Let_def)
    next
      case g: (Inr signed)
      have t: "executeMoonBuy_try lib net rl ws config amounts
                 = (fst (sendLoop net (length signed) 0 signed ?st0),
                    (case mapE (postOf net) (enumerate 0 signed) of
                       Inl e \<Rightarrow> Inl e | Inr rs \<Rightarrow> Inr rs))"
        using f k g loop [of signed] by (simp add: executeMoonBuy_try_def Let_def)
      have d: "distinct (sentIndices (trace (fst (sendLoop net (length signed) 0 signed ?st0))))"
        using sentIndices_loopTrace [of net "length signed" 0 signed]
        by (simp add: sendLoop_trace)
      show ?thesis using f k g d
        by (simp add: executeMoonBuy_def t split: sum.splits)
    qed
  qed
  show ?thesis
    using r s by (cases "getPartiallyPreparedTransactions net (map address ws) config amounts") blast+
qed

theorem executeMoonBuy_never_throws_witness:
  "snd (executeMoonBuy toySdk toyNetwork (initialRateLimitState 0)
          [\<lparr>address = ''A'', privateKey = ''Akey''\<rparr>, \<lparr>address = ''B'', privateKey = ''Bkey''\<rparr>]
          \<lparr>tokenAddress = ''T'', solAmount = Fin 1\<rparr> None)
     = \<lparr>error = None, success = True, result = Some [''ok'', ''ok'']\<rparr>
   \<and> snd (executeMoonBuy toySdk toyNetwork (initialRateLimitState 0)
          [\<lparr>address = ''A'', privateKey = ''Akey''\<rparr>]
          \<lparr>tokenAddress = ''T'', solAmount = Fin 1\<rparr> None)
     = \<lparr>error = Some ''Failed to fetch'', success = False, result = None\<rparr>"
proof -
  note a = executeMoonBuy_never_throws
     [where lib = toySdk and net = toyNetwork and rl = "initialRateLimitState 0"
        and ws = "[\<lparr>address = ''A'', privateKey = ''Akey''\<rparr>, \<lparr>address = ''B'', privateKey = ''Bkey''\<rparr>]"
        and config = "\<lparr>tokenAddress = ''T'', solAmount = Fin 1\<rparr>" and amounts = None,
      THEN conjunct1]
  note b = executeMoonBuy_never_throws
     [where lib = toySdk and net = toyNetwork and rl = "initialRateLimitState 0"
        and ws = "[\<lparr>address = ''A'', privateKey = ''Akey''\<rparr>]"
        and config = "\<lparr>tokenAddress = ''T'', solAmount = Fin 1\<rparr>" and amounts = None,
      THEN conjunct1]
  have a': "snd (executeMoonBuy toySdk toyNetwork (initialRateLimitState 0)
          [\<lparr>address = ''A'', privateKey = ''Akey''\<rparr>, \<lparr>address = ''B'', privateKey = ''Bkey''\<rparr>]
          \<lparr>tokenAddress = ''T'', solAmount = Fin 1\<rparr> None)
     = \<lparr>error = None, success = True, result = Some [''ok'', ''ok'']\<rparr>"
    unfolding a
    by (simp add: toyNetwork_def toySdk_def completeBundleSigning_def signTransaction_def
          postOf_def enumerate_eq_zip)
  have b': "snd (executeMoonBuy toySdk toyNetwork (initialRateLimitState 0)
          [\<lparr>address = ''A'', privateKey = ''Akey''\<rparr>]
          \<lparr>tokenAddress = ''T'', solAmount = Fin 1\<rparr> None)
     = \<lparr>error = Some ''Failed to fetch'', success = False, result = None\<rparr>"
    unfolding b
    by (simp add: toyNetwork_def toySdk_def completeBundleSigning_def signTransaction_def
          postOf_def enumerate_eq_zip)
  show ?thesis using a' b' by simp
qed


section \<open>Properties of input validation\<close>

lemma not_positive_iff:
  "isNaN x \<or> js_le x (Fin 0) \<longleftrightarrow> isNaN x \<or> \<not> js_lt (Fin 0) x"
  by (cases x) (auto simp: isNaN_def)

lemma validateWallets_valid:
  "valid (validateWallets ws config balances) \<longleftrightarrow>
     \<not> (\<exists>w \<in> set ws. address w = [] \<or> privateKey w = []
            \<or> js_lt (orZero (balances (address w))) (solAmount config))"
  by (induction ws) (auto simp: Let_def)

lemma validateWallets_error:
  "(valid (validateWallets ws config balances)
      \<longrightarrow> validateWallets ws config balances = \<lparr>error = None, valid = True\<rparr>)
   \<and> (\<not> valid (validateWallets ws config balances)
      \<longrightarrow> error (validateWallets ws config balances) \<noteq> None)"
  by (induction ws) (auto simp: Let_def)

text \<open>
  C5 (as amended). \<open>validateMoonBuyInputs\<close> is a total function of its three arguments
  alone: it reaches no network and has no exception. It returns
  \<open>{ valid: false, error: ... }\<close> exactly when the token address is empty, or \<open>solAmount\<close>
  is \<open>NaN\<close> or not strictly positive, or the wallet list is empty, or some wallet is
  missing its address or private key, or some wallet's balance is strictly below
  \<open>solAmount\<close>, the balance being taken as 0 when the address is absent from the balance
  map and also when the stored balance is \<open>NaN\<close>; otherwise it returns \<open>{ valid: true }\<close>.
\<close>

theorem validateMoonBuyInputs_rejects_exactly:
  "(\<not> valid (validateMoonBuyInputs ws config balances) \<longleftrightarrow>
      tokenAddress config = []
      \<or> isNaN (solAmount config) \<or> \<not> js_lt (Fin 0) (solAmount config)
      \<or> ws = []
      \<or> (\<exists>w \<in> set ws. address w = [] \<or> privateKey w = [])
      \<or> (\<exists>w \<in> set ws. js_lt (orZero (balances (address w))) (solAmount config)))
   \<and> (valid (validateMoonBuyInputs ws config balances)
      \<longrightarrow> validateMoonBuyInputs ws config balances = \<lparr>error = None, valid = True\<rparr>)
   \<and> (\<not> valid (validateMoonBuyInputs ws config balances)
      \<longrightarrow> error (validateMoonBuyInputs ws config balances) \<noteq> None)"
proof -
  have a: "\<not> valid (validateMoonBuyInputs ws config balances) \<longleftrightarrow>
      tokenAddress config = []
      \<or> (isNaN (solAmount config) \<or> js_le (solAmount config) (Fin 0))
      \<or> ws = []
      \<or> (\<exists>w \<in> set ws. address w = [] \<or> privateKey w = []
            \<or> js_lt (orZero (balances (address w))) (solAmount config))"
    by (simp add: validateMoonBuyInputs_def validateWallets_valid)
  have a': "\<not> valid (validateMoonBuyInputs ws config balances) \<longleftrightarrow>
      tokenAddress config = []
      \<or> isNaN (solAmount config) \<or> \<not> js_lt (Fin 0) (solAmount config)
      \<or> ws = []
      \<or> (\<exists>w \<in> set ws. address w = [] \<or> privateKey w = [])
      \<or> (\<exists>w \<in> set ws. js_lt (orZero (balances (address w))) (solAmount config))"
    unfolding a using not_positive_iff [of "solAmount config"] by blast
  have bc: "(valid (validateMoonBuyInputs ws config balances)
      \<longrightarrow> validateMoonBuyInputs ws config balances = \<lparr>error = None, valid = True\<rparr>)
    \<and> (\<not> valid (validateMoonBuyInputs ws config balances)
      \<longrightarrow> error (validateMoonBuyInputs ws config balances) \<noteq> None)"
  proof (cases "tokenAddress config = []
      \<or> (isNaN (solAmount config) \<or> js_le (solAmount config) (Fin 0)) \<or> ws = []")
    case True
    then show ?thesis by (auto simp: validateMoonBuyInputs_def)
  next
    case False
    then have "validateMoonBuyInputs ws config balances = validateWallets ws config balances"
      by (simp add: validateMoonBuyInputs_def)
    then show ?thesis using validateWallets_error [of ws config balances] by (simp only:)
  qed
  have b: "valid (validateMoonBuyInputs ws config balances)
      \<longrightarrow> validateMoonBuyInputs ws config balances = \<lparr>error = None, valid = True\<rparr>"
    by (rule conjunct1 [OF bc])
  have c: "\<not> valid (validateMoonBuyInputs ws config balances)
      \<longrightarrow> error (validateMoonBuyInputs ws config balances) \<noteq> None"
    by (rule conjunct2 [OF bc])
  show ?thesis
  proof (intro conjI)
    show "\<not> valid (validateMoonBuyInputs ws config balances) \<longleftrightarrow>
      tokenAddress config = []
      \<or> isNaN (solAmount config) \<or> \<not> js_lt (Fin 0) (solAmount config)
      \<or> ws = []
      \<or> (\<exists>w \<in> set ws. address w = [] \<or> privateKey w = [])
      \<or> (\<exists>w \<in> set ws. js_lt (orZero (balances (address w))) (solAmount config))"
      by (rule a')
    show "valid (validateMoonBuyInputs ws config balances)
      \<longrightarrow> validateMoonBuyInputs ws config balances = \<lparr>error = None, valid = True\<rparr>"
      by (rule b)
    show "\<not> valid (validateMoonBuyInputs ws config balances)
      \<longrightarrow> error (validateMoonBuyInputs ws config balances) \<noteq> None"
      by (rule c)
  qed
qed

theorem validateMoonBuyInputs_rejects_exactly_witness:
  "validateMoonBuyInputs [\<lparr>address = ''A'', privateKey = ''k''\<rparr>]
       \<lparr>tokenAddress = ''T'', solAmount = Fin 1\<rparr> [''A'' \<mapsto> Fin 2]
     = \<lparr>error = None, valid = True\<rparr>
   \<and> \<not> valid (validateMoonBuyInputs [\<lparr>address = ''A'', privateKey = ''k''\<rparr>]
       \<lparr>tokenAddress = ''T'', solAmount = Fin 1\<rparr> Map.empty)
   \<and> (\<exists>w \<in> set [\<lparr>address = ''A'', privateKey = ''k''\<rparr>].
         js_lt (orZero (Map.empty (address w))) (solAmount \<lparr>tokenAddress = ''T'', solAmount = Fin 1\<rparr>))"
proof -
  have v: "valid (validateMoonBuyInputs [\<lparr>address = ''A'', privateKey = ''k''\<rparr>]
       \<lparr>tokenAddress = ''T'', solAmount = Fin 1\<rparr> [''A'' \<mapsto> Fin 2])"
    by (simp add: validateMoonBuyInputs_def isNaN_def orZero_def truthyNumber_def)
  have n: "\<exists>w \<in> set [\<lparr>address = ''A'', privateKey = ''k''\<rparr>].
         js_lt (orZero (Map.empty (address w))) (solAmount \<lparr>tokenAddress = ''T'', solAmount = Fin 1\<rparr>)"
    by (simp add: orZero_def)
  note t = validateMoonBuyInputs_rejects_exactly
             [where ws = "[\<lparr>address = ''A'', privateKey = ''k''\<rparr>]"
                and config = "\<lparr>tokenAddress = ''T'', solAmount = Fin 1\<rparr>"]
  have a: "validateMoonBuyInputs [\<lparr>address = ''A'', privateKey = ''k''\<rparr>]
       \<lparr>tokenAddress = ''T'', solAmount = Fin 1\<rparr> [''A'' \<mapsto> Fin 2]
     = \<lparr>error = None, valid = True\<rparr>"
    using v t [of "[''A'' \<mapsto> Fin 2]"] by blast
  have b: "\<not> valid (validateMoonBuyInputs [\<lparr>address = ''A'', privateKey = ''k''\<rparr>]
       \<lparr>tokenAddress = ''T'', solAmount = Fin 1\<rparr> Map.empty)"
    using n t [of Map.empty] by blast
  show ?thesis using a b n by blast
qed

text \<open>
  The claim as stated fails when the balance map holds \<open>NaN\<close> for a wallet: \<open>NaN\<close> is not
  strictly below any amount and none of the other conditions holds, yet the code takes
  the balance as 0 and rejects.
\<close>

theorem validateMoonBuyInputs_nan_balance_counterexample:
  "validateMoonBuyInputs [\<lparr>address = ''Wallet1'', privateKey = ''k''\<rparr>]
       \<lparr>tokenAddress = ''T'', solAmount = Fin 1\<rparr> [''Wallet1'' \<mapsto> NaN]
     = \<lparr>error = Some ''Wallet Wallet... has insufficient balance'', valid = False\<rparr>
   \<and> \<not> rejected_as_specified [\<lparr>address = ''Wallet1'', privateKey = ''k''\<rparr>]
       \<lparr>tokenAddress = ''T'', solAmount = Fin 1\<rparr> [''Wallet1'' \<mapsto> NaN]"
  by (simp add: validateMoonBuyInputs_def rejected_as_specified_def isNaN_def orZero_def
        truthyNumber_def)


section \<open>Properties of the custom-buy wizard\<close>

lemma STEPS_CUSTOMBUY_last: "int (length STEPS_CUSTOMBUY) - 1 = 2"
  by (simp add: STEPS_CUSTOMBUY_def)

text \<open>
  C7 (as amended). The wizard moves linearly through the steps 0, 1, 2, guarded by
  synchronous validation. From a step in the range 0..2 both handlers stay in that
  range. \<open>handleNext\<close> leaves the step alone or advances it by exactly one, and changes
  nothing but the step and the toasts. On step 0 it advances exactly when at least one
  wallet is selected. On step 1 it does not advance when some entered amount is empty or
  parses to a value that is at most 0, and it advances when every entered amount is not
  empty and parses to a value strictly greater than 0. \<open>handleBack\<close> decrements the step
  by one, clamped at 0, and changes nothing else: the confirmed flag keeps its value.
\<close>

theorem wizard_steps_linear:
  assumes "0 \<le> currentStep s" and "currentStep s \<le> 2"
  shows "0 \<le> currentStep (handleNext pf s) \<and> currentStep (handleNext pf s) \<le> 2
         \<and> 0 \<le> currentStep (handleBack s) \<and> currentStep (handleBack s) \<le> 2
         \<and> (currentStep (handleNext pf s) = currentStep s
              \<or> currentStep (handleNext pf s) = currentStep s + 1)
         \<and> handleNext pf s = s\<lparr>currentStep := currentStep (handleNext pf s),
                                toasts := toasts (handleNext pf s)\<rparr>
         \<and> (currentStep s = 0 \<longrightarrow>
               (currentStep (handleNext pf s) = 1 \<longleftrightarrow> selectedWallets s \<noteq> []))
         \<and> (currentStep s = 1 \<longrightarrow>
               ((\<exists>amount \<in> set (map snd (walletAmounts s)).
                    amount = [] \<or> js_le (pf amount) (Fin 0))
                  \<longrightarrow> currentStep (handleNext pf s) = 1)
               \<and> ((\<forall>amount \<in> set (map snd (walletAmounts s)).
                    amount \<noteq> [] \<and> js_lt (Fin 0) (pf amount))
                  \<longrightarrow> currentStep (handleNext pf s) = 2))
         \<and> currentStep (handleBack s) = (if currentStep s = 0 then 0 else currentStep s - 1)
         \<and> handleBack s = s\<lparr>currentStep := currentStep (handleBack s)\<rparr>
         \<and> isConfirmed (handleBack s) = isConfirmed s"
proof -
  have gt: "js_lt (Fin 0) x \<Longrightarrow> \<not> js_le x (Fin 0)" for x
    by (cases x) auto
  have n1: "0 \<le> currentStep (handleNext pf s) \<and> currentStep (handleNext pf s) \<le> 2"
    using assms by (simp add: handleNext_def STEPS_CUSTOMBUY_last)
  have b1: "0 \<le> currentStep (handleBack s) \<and> currentStep (handleBack s) \<le> 2"
    using assms by (simp add: handleBack_def)
  have n2: "currentStep (handleNext pf s) = currentStep s
              \<or> currentStep (handleNext pf s) = currentStep s + 1"
    using assms by (auto simp: handleNext_def STEPS_CUSTOMBUY_last min_def)
  have n3: "handleNext pf s = s\<lparr>currentStep := currentStep (handleNext pf s),
                                toasts := toasts (handleNext pf s)\<rparr>"
    by (simp add: handleNext_def)
  have n4: "currentStep s = 0 \<longrightarrow>
               (currentStep (handleNext pf s) = 1 \<longleftrightarrow> selectedWallets s \<noteq> [])"
    by (simp add: handleNext_def STEPS_CUSTOMBUY_last)
  have n5: "currentStep s = 1 \<longrightarrow>
               ((\<exists>amount \<in> set (map snd (walletAmounts s)).
                    amount = [] \<or> js_le (pf amount) (Fin 0))
                  \<longrightarrow> currentStep (handleNext pf s) = 1)
               \<and> ((\<forall>amount \<in> set (map snd (walletAmounts s)).
                    amount \<noteq> [] \<and> js_lt (Fin 0) (pf amount))
                  \<longrightarrow> currentStep (handleNext pf s) = 2)"
    using gt by (auto simp: handleNext_def STEPS_CUSTOMBUY_last list_ex_iff)
  have b2: "currentStep (handleBack s) = (if currentStep s = 0 then 0 else currentStep s - 1)"
    using assms by (simp add: handleBack_def)
  have b3: "handleBack s = s\<lparr>currentStep := currentStep (handleBack s)\<rparr>"
    by (simp add: handleBack_def)
  have b4: "isConfirmed (handleBack s) = isConfirmed s"
    by (simp add: handleBack_def)
  show ?thesis
    using n1 b1 n2 n3 n4 n5 b2 b3 b4 by (intro conjI) (erule conjunct1 conjunct2 | assumption)+
qed

lemma parseDecimal_dot: "parseDecimal ''.'' = NaN"
  by (simp add: parseDecimal_def isDigit_def Let_def)

lemma parseDecimal_half: "parseDecimal ''0.5'' = Fin (1 / 2)"
  by (simp add: parseDecimal_def isDigit_def Let_def digitsValue_def)

theorem wizard_steps_linear_witness:
  "0 \<le> currentStep (configuring ''0.5'') \<and> currentStep (configuring ''0.5'') \<le> 2
   \<and> currentStep (configuring ''0.5'') = 1
   \<and> list_all (\<lambda>amount. amount \<noteq> [] \<and> js_lt (Fin 0) (parseDecimal amount))
         (map snd (walletAmounts (configuring ''0.5'')))
   \<and> currentStep (handleNext parseDecimal (configuring ''0.5'')) = 2
   \<and> currentStep (handleBack (configuring ''0.5'')) = 0"
proof -
  have h1: "0 \<le> currentStep (configuring ''0.5'')" by (simp add: configuring_def)
  have h2: "currentStep (configuring ''0.5'') \<le> 2" by (simp add: configuring_def)
  have h3: "currentStep (configuring ''0.5'') = 1" by (simp add: configuring_def)
  have h4: "\<forall>amount \<in> set (map snd (walletAmounts (configuring ''0.5''))).
         amount \<noteq> [] \<and> js_lt (Fin 0) (parseDecimal amount)"
    by (simp add: configuring_def parseDecimal_half)
  note t = wizard_steps_linear [OF h1 h2, of parseDecimal]
  have a: "currentStep (handleNext parseDecimal (configuring ''0.5'')) = 2"
    using t h3 h4 by blast
  have "currentStep (handleBack (configuring ''0.5''))
          = (if currentStep (configuring ''0.5'') = 0 then 0
             else currentStep (configuring ''0.5'') - 1)"
    using t by blast
  then have b: "currentStep (handleBack (configuring ''0.5'')) = 0"
    using h3 by simp
  have h4': "list_all (\<lambda>amount. amount \<noteq> [] \<and> js_lt (Fin 0) (parseDecimal amount))
         (map snd (walletAmounts (configuring ''0.5'')))"
    using h4 by (simp add: list_all_iff)
  show ?thesis using h1 h2 h3 h4' a b by blast
qed

text \<open>
  The claim as stated fails in two places. \<open>handleBack\<close> does not reset the confirmed
  flag: going back from the review step leaves it set. And the validation of step 1 lets
  through an amount that does not parse to a number: the amount \<open>.\<close>, which the amount
  field accepts, parses to \<open>NaN\<close>, \<open>NaN <= 0\<close> is false, and \<open>handleNext\<close> advances.
\<close>

theorem wizard_counterexample:
  "isConfirmed reviewing \<and> isConfirmed (handleBack reviewing)
   \<and> handleBack reviewing = reviewing\<lparr>currentStep := 1\<rparr>
   \<and> currentStep (configuring ''.'') = 1
   \<and> parseDecimal ''.'' = NaN \<and> \<not> js_lt (Fin 0) (parseDecimal ''.'')
   \<and> currentStep (handleNext parseDecimal (configuring ''.'')) = 2"
  by (simp add: handleBack_def handleNext_def reviewing_def configuring_def parseDecimal_dot
        STEPS_CUSTOMBUY_def)

section \<open>Properties of the wallet list\<close>

lemma handleImportWallet_wallets:
  "wallets (handleImportWallet api hasConnection token s) = wallets s
   \<or> (\<exists>w. wallets (handleImportWallet api hasConnection token s) = wallets s @ [w]
          \<and> address w \<notin> address ` set (wallets s))"
  by (auto simp: handleImportWallet_def Let_def list_ex_iff split: sum.splits option.splits)

text \<open>
  The single-key import, one call at a time, keeps the addresses of the wallet list
  pairwise different.
\<close>

lemma handleImportWallet_distinct:
  assumes "distinct (map address (wallets s))"
  shows "distinct (map address (wallets (handleImportWallet api hasConnection token s)))"
  using assms handleImportWallet_wallets [of api hasConnection token s] by auto

text \<open>
  The file import compares every imported wallet with the wallets held before the
  import, and with nothing else.
\<close>

lemma importLoop_step:
  "\<exists>acc'. importLoop api token held (key # keys) (imported, sol, tok)
             = importLoop api token held keys acc'
         \<and> (fst acc' = imported
             \<or> (\<exists>w. fst acc' = imported @ [w] \<and> address w \<notin> address ` set held))"
proof (cases "importWallet api key")
  case (Inl e)
  then show ?thesis by - (rule exI [of _ "(imported, sol, tok)"], simp)
next
  case (Inr r)
  show ?thesis
  proof (cases "truthyString (error r)")
    case True
    with Inr show ?thesis by - (rule exI [of _ "(imported, sol, tok)"], simp)
  next
    case False
    show ?thesis
    proof (cases "wallet r")
      case None
      with Inr False show ?thesis by - (rule exI [of _ "(imported, sol, tok)"], simp)
    next
      case (Some w)
      show ?thesis
      proof (cases "list_ex (\<lambda>x. address x = address w) held")
        case True
        with Inr False Some show ?thesis by - (rule exI [of _ "(imported, sol, tok)"], simp)
      next
        case nh: False
        then have a: "address w \<notin> address ` set held"
          by (auto simp: list_ex_iff)
        show ?thesis
        proof (cases "fetchSolBalance api (address w)")
          case (Inl e)
          with Inr False Some nh a show ?thesis
            by - (rule exI [of _ "(imported @ [w], sol, tok)"], simp)
        next
          case s: (Inr solBalance)
          show ?thesis
          proof (cases "token \<noteq> []")
            case False
            with Inr \<open>\<not> truthyString (error r)\<close> Some nh a s show ?thesis
              by - (rule exI [of _ "(imported @ [w], sol(address w \<mapsto> solBalance),
                                   tok(address w \<mapsto> Fin 0))"], simp)
          next
            case True
            show ?thesis
            proof (cases "fetchTokenBalance api (address w) token")
              case (Inl e)
              with Inr \<open>\<not> truthyString (error r)\<close> Some nh a s True show ?thesis
                by - (rule exI [of _ "(imported @ [w], sol(address w \<mapsto> solBalance), tok)"], simp)
            next
              case t: (Inr tokenBalance)
              with Inr \<open>\<not> truthyString (error r)\<close> Some nh a s True show ?thesis
                by - (rule exI [of _ "(imported @ [w], sol(address w \<mapsto> solBalance),
                                     tok(address w \<mapsto> tokenBalance))"], simp)
            qed
          qed
        qed
      qed
    qed
  qed
qed

lemma importLoop_not_held:
  "\<forall>w \<in> set (fst acc). address w \<notin> address ` set held \<Longrightarrow>
   \<forall>w \<in> set (fst (importLoop api token held keys acc)). address w \<notin> address ` set held"
proof (induction keys arbitrary: acc)
  case Nil
  then show ?case by simp
next
  case (Cons key keys)
  obtain imported sol tok where acc: "acc = (imported, sol, tok)"
    by (cases acc) auto
  obtain acc' where e: "importLoop api token held (key # keys) (imported, sol, tok)
             = importLoop api token held keys acc'"
    and f: "fst acc' = imported
             \<or> (\<exists>w. fst acc' = imported @ [w] \<and> address w \<notin> address ` set held)"
    using importLoop_step [of api token held key keys imported sol tok] by blast
  have "\<forall>w \<in> set (fst acc'). address w \<notin> address ` set held"
    using f Cons.prems acc by auto
  then show ?case using Cons.IH [of acc'] e acc by simp
qed

text \<open>
  C8 fails for the file import. A file that lists the same private key twice passes
  both copies: the second is compared with the wallets held before the import, not with
  the wallet imported a moment before, and the wallet list ends with two equal addresses.
\<close>

theorem import_file_duplicate_key:
  "distinct (map address (wallets emptyApp))
   \<and> map address (wallets (importWalletsSequentially toyApi [] emptyApp [''Akey'', ''Akey'']))
     = [''A'', ''A'']
   \<and> \<not> distinct (map address
          (wallets (importWalletsSequentially toyApi [] emptyApp [''Akey'', ''Akey''])))"
  by (simp add: importWalletsSequentially_def toyApi_def emptyApp_def truthyString_def)

text \<open>
  C9. \<open>handleDeleteWallet\<close> removes from the wallet list the wallets with the given id and
  keeps every other wallet, in order. When a wallet has the id, the address of the first
  such wallet is deleted from the SOL and the token balance map, and the entry of every
  other address is unchanged in both; when no wallet has the id, both maps and the wallet
  list are unchanged. Nothing else of the state changes.
\<close>

theorem handleDeleteWallet_frame:
  "wallets (handleDeleteWallet i s) = filter (\<lambda>w. walletId w \<noteq> i) (wallets s)
   \<and> (\<forall>w \<in> set (wallets s). walletId w \<noteq> i \<longrightarrow> w \<in> set (wallets (handleDeleteWallet i s)))
   \<and> (\<forall>w \<in> set (wallets (handleDeleteWallet i s)). w \<in> set (wallets s) \<and> walletId w \<noteq> i)
   \<and> (case find (\<lambda>w. walletId w = i) (wallets s) of
         None \<Rightarrow> solBalances (handleDeleteWallet i s) = solBalances s
                 \<and> tokenBalances (handleDeleteWallet i s) = tokenBalances s
       | Some d \<Rightarrow> d \<in> set (wallets s) \<and> walletId d = i
                 \<and> solBalances (handleDeleteWallet i s) = (solBalances s)(address d := None)
                 \<and> tokenBalances (handleDeleteWallet i s) = (tokenBalances s)(address d := None)
                 \<and> (\<forall>a. a \<noteq> address d \<longrightarrow>
                        solBalances (handleDeleteWallet i s) a = solBalances s a
                        \<and> tokenBalances (handleDeleteWallet i s) a = tokenBalances s a))
   \<and> ((\<forall>w \<in> set (wallets s). walletId w \<noteq> i) \<longrightarrow>
         solBalances (handleDeleteWallet i s) = solBalances s
         \<and> tokenBalances (handleDeleteWallet i s) = tokenBalances s
         \<and> wallets (handleDeleteWallet i s) = wallets s)
   \<and> importKey (handleDeleteWallet i s) = importKey s
   \<and> importError (handleDeleteWallet i s) = importError s
   \<and> isImporting (handleDeleteWallet i s) = isImporting s"
proof -
  have w: "wallets (handleDeleteWallet i s) = filter (\<lambda>w. walletId w \<noteq> i) (wallets s)"
    by (simp add: handleDeleteWallet_def deleteWallet_def Let_def split: option.splits)
  have m: "case find (\<lambda>w. walletId w = i) (wallets s) of
         None \<Rightarrow> solBalances (handleDeleteWallet i s) = solBalances s
                 \<and> tokenBalances (handleDeleteWallet i s) = tokenBalances s
       | Some d \<Rightarrow> d \<in> set (wallets s) \<and> walletId d = i
                 \<and> solBalances (handleDeleteWallet i s) = (solBalances s)(address d := None)
                 \<and> tokenBalances (handleDeleteWallet i s) = (tokenBalances s)(address d := None)
                 \<and> (\<forall>a. a \<noteq> address d \<longrightarrow>
                        solBalances (handleDeleteWallet i s) a = solBalances s a
                        \<and> tokenBalances (handleDeleteWallet i s) a = tokenBalances s a)"
  proof (cases "find (\<lambda>w. walletId w = i) (wallets s)")
    case None
    then show ?thesis by (simp add: handleDeleteWallet_def Let_def)
  next
    case (Some d)
    then have "d \<in> set (wallets s) \<and> walletId d = i"
      by (auto simp: find_Some_iff)
    then show ?thesis using Some by (simp add: handleDeleteWallet_def Let_def)
  qed
  have n: "(\<forall>w \<in> set (wallets s). walletId w \<noteq> i) \<longrightarrow>
         solBalances (handleDeleteWallet i s) = solBalances s
         \<and> tokenBalances (handleDeleteWallet i s) = tokenBalances s
         \<and> wallets (handleDeleteWallet i s) = wallets s"
  proof
    assume a: "\<forall>w \<in> set (wallets s). walletId w \<noteq> i"
    then have "find (\<lambda>w. walletId w = i) (wallets s) = None"
      by (simp add: find_None_iff)
    moreover have "filter (\<lambda>w. walletId w \<noteq> i) (wallets s) = wallets s"
      using a by (simp add: filter_id_conv)
    ultimately show "solBalances (handleDeleteWallet i s) = solBalances s
         \<and> tokenBalances (handleDeleteWallet i s) = tokenBalances s
         \<and> wallets (handleDeleteWallet i s) = wallets s"
      using w by (simp add: handleDeleteWallet_def Let_def)
  qed
  have f: "importKey (handleDeleteWallet i s) = importKey s
   \<and> importError (handleDeleteWallet i s) = importError s
   \<and> isImporting (handleDeleteWallet i s) = isImporting s"
    by (simp add: handleDeleteWallet_def Let_def split: option.splits)
  have w1: "\<forall>w \<in> set (wallets s). walletId w \<noteq> i \<longrightarrow> w \<in> set (wallets (handleDeleteWallet i s))"
    by (simp add: w)
  have w2: "\<forall>w \<in> set (wallets (handleDeleteWallet i s)). w \<in> set (wallets s) \<and> walletId w \<noteq> i"
    by (simp add: w)
  show ?thesis
    by (intro conjI w w1 w2 m n f [THEN conjunct1] f [THEN conjunct2, THEN conjunct1]
          f [THEN conjunct2, THEN conjunct2])
qed

theorem handleDeleteWallet_frame_witness:
  "find (\<lambda>w. walletId w = 1) (wallets twoWallets)
     = Some \<lparr>address = ''A'', privateKey = ''Akey'', walletId = 1\<rparr>
   \<and> wallets (handleDeleteWallet 1 twoWallets)
     = [\<lparr>address = ''B'', privateKey = ''Bkey'', walletId = 2\<rparr>]
   \<and> solBalances (handleDeleteWallet 1 twoWallets) ''A'' = None
   \<and> solBalances (handleDeleteWallet 1 twoWallets) ''B'' = Some (Fin 2)
   \<and> tokenBalances (handleDeleteWallet 1 twoWallets) ''B'' = Some (Fin 7)
   \<and> find (\<lambda>w. walletId w = 3) (wallets twoWallets) = None
   \<and> solBalances (handleDeleteWallet 3 twoWallets) = solBalances twoWallets
   \<and> wallets (handleDeleteWallet 3 twoWallets) = wallets twoWallets"
proof -
  have f: "find (\<lambda>w. walletId w = 1) (wallets twoWallets)
     = Some \<lparr>address = ''A'', privateKey = ''Akey'', walletId = 1\<rparr>"
    by (simp add: twoWallets_def)
  have h: "\<forall>w \<in> set (wallets twoWallets). walletId w \<noteq> 3"
    by (simp add: twoWallets_def)
  note t1 = handleDeleteWallet_frame [of 1 twoWallets]
  note t3 = handleDeleteWallet_frame [of 3 twoWallets]
  note w1 = t1 [THEN conjunct1]
  note m1 = t1 [THEN conjunct2, THEN conjunct2, THEN conjunct2, THEN conjunct1,
                unfolded f option.case]
  note n3 = t3 [THEN conjunct2, THEN conjunct2, THEN conjunct2, THEN conjunct2, THEN conjunct1]
  have a: "wallets (handleDeleteWallet 1 twoWallets)
     = [\<lparr>address = ''B'', privateKey = ''Bkey'', walletId = 2\<rparr>]"
    unfolding w1 by (simp add: twoWallets_def)
  have s1: "solBalances (handleDeleteWallet 1 twoWallets) = (solBalances twoWallets)(''A'' := None)"
    using m1 by simp
  have s2: "tokenBalances (handleDeleteWallet 1 twoWallets) = (tokenBalances twoWallets)(''A'' := None)"
    using m1 by simp
  have b: "solBalances (handleDeleteWallet 1 twoWallets) ''A'' = None
   \<and> solBalances (handleDeleteWallet 1 twoWallets) ''B'' = Some (Fin 2)
   \<and> tokenBalances (handleDeleteWallet 1 twoWallets) ''B'' = Some (Fin 7)"
    unfolding s1 s2 by (simp add: twoWallets_def)
  have c: "solBalances (handleDeleteWallet 3 twoWallets) = solBalances twoWallets
   \<and> wallets (handleDeleteWallet 3 twoWallets) = wallets twoWallets"
    using n3 h by blast
  have h': "find (\<lambda>w. walletId w = 3) (wallets twoWallets) = None"
    by (simp add: twoWallets_def)
  show ?thesis using f a b c h' by blast
qed

end
